theory Spec2Isabelle
  imports Main "HOL-Library.Word" "HOL-Library.Sublist" "HOL-Library.Multiset"
begin

section \<open>Data model (AudioVideoController.h)\<close>

text \<open>
  The structs of the header become records. \<open>pid_t\<close> is an \<open>int\<close> (no arithmetic is
  done on it), \<open>uid_t\<close> and \<open>gid_t\<close> are 32-bit words, \<open>uint64_t\<close> is a 64-bit word.
  A \<open>std::string\<close> is a \<open>string\<close>; a \<open>std::vector\<close> is a list; the
  \<open>std::map<std::string, std::string>\<close> of environment variables is the list of its
  entries in iteration order. Field names that occur in more than one struct carry
  a prefix (\<open>fa_\<close>, \<open>nc_\<close>).
\<close>

type_synonym pid_t = int
type_synonym uid_t = "32 word"
type_synonym uint64_t = "64 word"

record ProcessInfo =
  pid :: pid_t
  ppid :: pid_t
  executablePath :: string
  commandLine :: string
  bundleIdentifier :: string
  uid :: uid_t
  gid :: uid_t
  startTime :: uint64_t
  cpuTime :: uint64_t
  memoryUsage :: uint64_t
  openFiles :: "string list"
  networkConnections :: "string list"
  loadedLibraries :: "string list"
  environmentVariables :: "(string \<times> string) list"
  isSystemProcess :: bool
  hasAudioAccess :: bool
  hasVideoAccess :: bool
  hasNetworkAccess :: bool
  hasFileSystemAccess :: bool

record NetworkConnection =
  protocol :: string
  localAddress :: string
  localPort :: int
  remoteAddress :: string
  remotePort :: int
  state :: string
  nc_pid :: pid_t
  nc_timestamp :: uint64_t

record FileAccess =
  fa_pid :: pid_t
  filePath :: string
  accessType :: string
  fa_timestamp :: uint64_t
  wasBlocked :: bool
  reason :: string

subsection \<open>The audit store (tables of createDatabaseTables)\<close>

text \<open>
  A table is the list of its rows in insertion order. The \<open>file_access\<close> and
  \<open>network_connections\<close> rows carry exactly the columns of the two structs, so the
  structs themselves are the rows. Strings are taken to hold no NUL character, so
  that \<open>c_str()\<close> binds the whole string. The table \<open>process_memory\<close> is created but
  never written or read and is left out.
\<close>

record process_event_row =
  pe_timestamp :: uint64_t
  pe_pid :: pid_t
  pe_ppid :: pid_t
  pe_executable_path :: string
  pe_command_line :: string
  pe_bundle_id :: string
  pe_uid :: uid_t
  pe_gid :: uid_t
  pe_event_type :: string
  pe_cpu_time :: uint64_t
  pe_memory_usage :: uint64_t
  pe_is_system_process :: bool

record system_call_row =
  sc_timestamp :: uint64_t
  sc_pid :: pid_t
  sc_syscall_name :: string
  sc_arguments :: string
  sc_return_value :: string

record loaded_library_row =
  ll_timestamp :: uint64_t
  ll_pid :: pid_t
  ll_library_path :: string
  ll_load_address :: string

record environment_var_row =
  ev_timestamp :: uint64_t
  ev_pid :: pid_t
  ev_var_name :: string
  ev_var_value :: string

record sqlite3 =
  process_events :: "process_event_row list"
  file_access :: "FileAccess list"
  network_connections :: "NetworkConnection list"
  system_calls :: "system_call_row list"
  loaded_libraries :: "loaded_library_row list"
  environment_vars :: "environment_var_row list"

subsection \<open>The controller object\<close>

text \<open>
  The private members of \<open>class AudioVideoController\<close> that the operations below
  read or write. \<open>database\<close> is \<open>None\<close> for a handle on which
  \<open>sqlite3_prepare_v2\<close> does not return \<open>SQLITE_OK\<close> (the null handle of the
  constructor in particular) and \<open>Some\<close> of the tables otherwise.
  \<open>databaseMutex\<close> is true while the mutex is locked.
\<close>

record AudioVideoController =
  microphoneEnabled :: bool
  cameraEnabled :: bool
  database :: "sqlite3 option"
  databaseMutex :: bool
  monitoringEnabled :: bool
  runningProcesses :: "pid_t \<rightharpoonup> ProcessInfo"
  activeConnections :: "NetworkConnection list"
  recentFileAccess :: "FileAccess list"

subsection \<open>Endpoint Security messages\<close>

text \<open>
  The event types are those that \<open>initialize\<close> subscribes to, so those that can be
  delivered. A message carries its \<open>event_type\<close>, its \<open>action_type\<close>, the fields of
  \<open>message->process\<close> that the handlers read, and the members of the \<open>event\<close>
  union that they read. A path token is \<open>None\<close> when its \<open>data\<close> pointer is null
  and otherwise the characters up to the terminating NUL, which are also the
  \<open>length\<close> characters that the \<open>std::string\<close> constructor copies.
\<close>

datatype es_event_type =
    ES_EVENT_TYPE_NOTIFY_EXEC
  | ES_EVENT_TYPE_NOTIFY_EXIT
  | ES_EVENT_TYPE_NOTIFY_FORK
  | ES_EVENT_TYPE_NOTIFY_SIGNAL
  | ES_EVENT_TYPE_NOTIFY_SETUID
  | ES_EVENT_TYPE_NOTIFY_SETGID
  | ES_EVENT_TYPE_AUTH_OPEN
  | ES_EVENT_TYPE_NOTIFY_OPEN
  | ES_EVENT_TYPE_NOTIFY_CLOSE
  | ES_EVENT_TYPE_AUTH_CREATE
  | ES_EVENT_TYPE_NOTIFY_CREATE
  | ES_EVENT_TYPE_AUTH_UNLINK
  | ES_EVENT_TYPE_NOTIFY_UNLINK
  | ES_EVENT_TYPE_AUTH_RENAME
  | ES_EVENT_TYPE_NOTIFY_RENAME
  | ES_EVENT_TYPE_NOTIFY_WRITE
  | ES_EVENT_TYPE_NOTIFY_ACCESS
  | ES_EVENT_TYPE_NOTIFY_CHDIR
  | ES_EVENT_TYPE_NOTIFY_STAT
  | ES_EVENT_TYPE_NOTIFY_READDIR
  | ES_EVENT_TYPE_NOTIFY_MMAP
  | ES_EVENT_TYPE_NOTIFY_MUNMAP
  | ES_EVENT_TYPE_NOTIFY_MPROTECT
  | ES_EVENT_TYPE_AUTH_KEXTLOAD
  | ES_EVENT_TYPE_NOTIFY_KEXTLOAD
  | ES_EVENT_TYPE_AUTH_EXEC
  | ES_EVENT_TYPE_AUTH_FILE_PROVIDER_MATERIALIZE
  | ES_EVENT_TYPE_AUTH_FILE_PROVIDER_UPDATE
  | ES_EVENT_TYPE_NOTIFY_IOKIT_OPEN
  | ES_EVENT_TYPE_NOTIFY_DUP
  | ES_EVENT_TYPE_AUTH_COPYFILE
  | ES_EVENT_TYPE_NOTIFY_COPYFILE
  | ES_EVENT_TYPE_AUTH_TRUNCATE
  | ES_EVENT_TYPE_NOTIFY_TRUNCATE

datatype es_action_type = ES_ACTION_TYPE_AUTH | ES_ACTION_TYPE_NOTIFY

datatype es_auth_result = ES_AUTH_RESULT_ALLOW | ES_AUTH_RESULT_DENY

record es_message =
  event_type :: es_event_type
  action_type :: es_action_type
  process_pid :: pid_t
  process_ppid :: pid_t
  process_uid :: uid_t
  process_gid :: uid_t
  process_executable_path :: string
  open_file_path :: "string option"
  write_target_path :: "string option"
  unlink_target_path :: "string option"
  exec_target_path :: string
  signal_sig :: int
  signal_target_pid :: pid_t
  fork_child_pid :: pid_t
  setuid_uid :: uid_t

text \<open>
  The kernel delivers an \<open>AUTH\<close> event type with action type \<open>AUTH\<close> and a
  \<open>NOTIFY\<close> event type with action type \<open>NOTIFY\<close>.
\<close>

fun action_of :: "es_event_type \<Rightarrow> es_action_type" where
  "action_of ES_EVENT_TYPE_AUTH_OPEN = ES_ACTION_TYPE_AUTH"
| "action_of ES_EVENT_TYPE_AUTH_CREATE = ES_ACTION_TYPE_AUTH"
| "action_of ES_EVENT_TYPE_AUTH_UNLINK = ES_ACTION_TYPE_AUTH"
| "action_of ES_EVENT_TYPE_AUTH_RENAME = ES_ACTION_TYPE_AUTH"
| "action_of ES_EVENT_TYPE_AUTH_KEXTLOAD = ES_ACTION_TYPE_AUTH"
| "action_of ES_EVENT_TYPE_AUTH_EXEC = ES_ACTION_TYPE_AUTH"
| "action_of ES_EVENT_TYPE_AUTH_FILE_PROVIDER_MATERIALIZE = ES_ACTION_TYPE_AUTH"
| "action_of ES_EVENT_TYPE_AUTH_FILE_PROVIDER_UPDATE = ES_ACTION_TYPE_AUTH"
| "action_of ES_EVENT_TYPE_AUTH_COPYFILE = ES_ACTION_TYPE_AUTH"
| "action_of ES_EVENT_TYPE_AUTH_TRUNCATE = ES_ACTION_TYPE_AUTH"
| "action_of _ = ES_ACTION_TYPE_NOTIFY"

definition delivered :: "es_message \<Rightarrow> bool" where
  "delivered m = (action_type m = action_of (event_type m))"

section \<open>String search\<close>

text \<open>
  \<open>strstr haystack needle\<close> is the suffix of the haystack that starts at the first
  occurrence of the needle, or \<open>None\<close> for the null pointer.
  \<open>str_find s needle\<close> is \<open>s.find(needle)\<close>: the first position of the needle, or
  \<open>None\<close> for \<open>std::string::npos\<close>.
\<close>

primrec strstr :: "string \<Rightarrow> string \<Rightarrow> string option" where
  "strstr [] needle = (if needle = [] then Some [] else None)"
| "strstr (c # cs) needle =
     (if prefix needle (c # cs) then Some (c # cs) else strstr cs needle)"

primrec str_find :: "string \<Rightarrow> string \<Rightarrow> nat option" where
  "str_find [] needle = (if needle = [] then Some 0 else None)"
| "str_find (c # cs) needle =
     (if prefix needle (c # cs) then Some 0 else map_option Suc (str_find cs needle))"

section \<open>Policy state (AudioVideoController.cpp)\<close>

text \<open>
  The constructor: both devices enabled, no database handle, the mutex initialised
  (unlocked), monitoring off, empty containers.
\<close>

definition AudioVideoController_ctor :: AudioVideoController where
  "AudioVideoController_ctor =
     \<lparr> microphoneEnabled = True, cameraEnabled = True, database = None,
       databaseMutex = False, monitoringEnabled = False, runningProcesses = Map.empty,
       activeConnections = [], recentFileAccess = [] \<rparr>"

definition isMicrophoneEnabled :: "AudioVideoController \<Rightarrow> bool" where
  "isMicrophoneEnabled c = microphoneEnabled c"

definition isCameraEnabled :: "AudioVideoController \<Rightarrow> bool" where
  "isCameraEnabled c = cameraEnabled c"

text \<open>
  \<open>controlAudioDevices\<close> and \<open>controlVideoDevices\<close> take the \<open>kern_return_t\<close> that
  \<open>IOServiceGetMatchingServices\<close> answers. On failure they return false. On success
  they walk the finitely many service objects of the iterator, where the loop body
  only writes to syslog and releases the object, and return true. Syslog output is not
  part of the model, so the loop leaves no trace in it.
\<close>

type_synonym kern_return_t = int

definition KERN_SUCCESS :: kern_return_t where
  "KERN_SUCCESS = 0"

definition controlAudioDevices :: "bool \<Rightarrow> kern_return_t \<Rightarrow> bool" where
  "controlAudioDevices enable result = (if result \<noteq> KERN_SUCCESS then False else True)"

definition controlVideoDevices :: "bool \<Rightarrow> kern_return_t \<Rightarrow> bool" where
  "controlVideoDevices enable result = (if result \<noteq> KERN_SUCCESS then False else True)"

definition disableMicrophone ::
  "kern_return_t \<Rightarrow> AudioVideoController \<Rightarrow> AudioVideoController \<times> bool" where
  "disableMicrophone result c = (c\<lparr>microphoneEnabled := False\<rparr>, controlAudioDevices False result)"

definition enableMicrophone ::
  "kern_return_t \<Rightarrow> AudioVideoController \<Rightarrow> AudioVideoController \<times> bool" where
  "enableMicrophone result c = (c\<lparr>microphoneEnabled := True\<rparr>, controlAudioDevices True result)"

definition disableCamera ::
  "kern_return_t \<Rightarrow> AudioVideoController \<Rightarrow> AudioVideoController \<times> bool" where
  "disableCamera result c = (c\<lparr>cameraEnabled := False\<rparr>, controlVideoDevices False result)"

definition enableCamera ::
  "kern_return_t \<Rightarrow> AudioVideoController \<Rightarrow> AudioVideoController \<times> bool" where
  "enableCamera result c = (c\<lparr>cameraEnabled := True\<rparr>, controlVideoDevices True result)"

section \<open>The dispatcher of AudioVideoController.cpp\<close>

text \<open>
  The repository defines \<open>AudioVideoController::handleESEvent\<close> twice: once in
  AudioVideoController.cpp and once in ProcessMonitoring.cpp. Both are modelled, under
  the names \<open>handleESEvent_AVC\<close> and \<open>handleESEvent_PM\<close>.

  The one of AudioVideoController.cpp changes no member of the controller; its result
  is the list of the responses it sends with \<open>es_respond_auth_result\<close>, in order.
\<close>

definition audio_device_path :: "string \<Rightarrow> bool" where
  "audio_device_path path =
     (strstr path ''/dev/audio'' \<noteq> None \<or> strstr path ''coreaudio'' \<noteq> None \<or>
      strstr path ''AudioUnit'' \<noteq> None \<or> strstr path ''AVAudioEngine'' \<noteq> None)"

definition video_device_path :: "string \<Rightarrow> bool" where
  "video_device_path path =
     (strstr path ''/dev/video'' \<noteq> None \<or> strstr path ''AVCapture'' \<noteq> None \<or>
      strstr path ''CoreMediaIO'' \<noteq> None \<or> strstr path ''VDCAssistant'' \<noteq> None)"

definition handleESEvent_AVC :: "AudioVideoController \<Rightarrow> es_message \<Rightarrow> es_auth_result list" where
  "handleESEvent_AVC c m =
     (if event_type m = ES_EVENT_TYPE_AUTH_OPEN then
        (case open_file_path m of
           Some path \<Rightarrow>
             if audio_device_path path then
               [if isMicrophoneEnabled c then ES_AUTH_RESULT_ALLOW else ES_AUTH_RESULT_DENY]
             else if video_device_path path then
               [if isCameraEnabled c then ES_AUTH_RESULT_ALLOW else ES_AUTH_RESULT_DENY]
             else [ES_AUTH_RESULT_ALLOW]
         | None \<Rightarrow> [ES_AUTH_RESULT_ALLOW])
      else if event_type m = ES_EVENT_TYPE_NOTIFY_EXEC then []
      else if action_type m = ES_ACTION_TYPE_AUTH then [ES_AUTH_RESULT_ALLOW]
      else [])"

section \<open>Process analysis (ProcessAnalysis.cpp)\<close>

text \<open>
  What the machine supplies during one call. The answers of
  \<open>proc_pidinfo\<close> and \<open>proc_pidpath\<close> are \<open>None\<close> when the call does not return a
  positive value. \<open>sysctl_KERN_PROC_ALL\<close> is the list of the process ids that the two
  \<open>sysctl\<close> calls of \<open>scanRunningProcesses\<close> yield, \<open>None\<close> when one of them fails. The results of the five collectors that parse kernel buffers
  (\<open>getProcessCommandLine\<close>, \<open>getProcessOpenFiles\<close>,
  \<open>getProcessNetworkConnections\<close>, \<open>getProcessLoadedLibraries\<close>,
  \<open>getProcessEnvironment\<close>) are taken as given per process id. \<open>indeterminate\<close>
  holds the values that the scalar members of a default-initialised local
  \<open>ProcessInfo\<close> happen to have.
\<close>

record proc_taskinfo =
  pti_resident_size :: uint64_t
  pti_total_user :: uint64_t
  pti_total_system :: uint64_t

record proc_taskallinfo =
  pbi_ppid :: pid_t
  pbi_uid :: uid_t
  pbi_gid :: uid_t
  pbi_start_tvsec :: uint64_t
  ptinfo :: proc_taskinfo

record environment =
  proc_pidinfo_TASKALLINFO :: "pid_t \<Rightarrow> proc_taskallinfo option"
  proc_pidinfo_TASKINFO :: "pid_t \<Rightarrow> proc_taskinfo option"
  proc_pidpath :: "pid_t \<Rightarrow> string option"
  getProcessCommandLine :: "pid_t \<Rightarrow> string"
  getProcessOpenFiles :: "pid_t \<Rightarrow> string list"
  getProcessNetworkConnections :: "pid_t \<Rightarrow> string list"
  getProcessLoadedLibraries :: "pid_t \<Rightarrow> string list"
  getProcessEnvironment :: "pid_t \<Rightarrow> (string \<times> string) list"
  sysctl_KERN_PROC_ALL :: "pid_t list option"
  indeterminate :: ProcessInfo

definition getProcessMemoryUsage :: "environment \<Rightarrow> pid_t \<Rightarrow> uint64_t" where
  "getProcessMemoryUsage env p =
     (case proc_pidinfo_TASKINFO env p of
        Some taskInfo \<Rightarrow> pti_resident_size taskInfo
      | None \<Rightarrow> 0)"

definition getProcessCPUTime :: "environment \<Rightarrow> pid_t \<Rightarrow> uint64_t" where
  "getProcessCPUTime env p =
     (case proc_pidinfo_TASKINFO env p of
        Some taskInfo \<Rightarrow> pti_total_user taskInfo + pti_total_system taskInfo
      | None \<Rightarrow> 0)"

definition systemProcesses :: "string list" where
  "systemProcesses =
     [''kernel_task'', ''launchd'', ''kextd'', ''UserEventAgent'',
      ''loginwindow'', ''WindowServer'', ''Dock'', ''Finder'',
      ''SystemUIServer'', ''coreaudiod'', ''VDCAssistant'']"

definition isSystemCriticalProcess :: "environment \<Rightarrow> pid_t \<Rightarrow> bool" where
  "isSystemCriticalProcess env p =
     (case proc_pidpath env p of
        Some path \<Rightarrow>
          if str_find path ''/System/'' = Some 0 \<or> str_find path ''/usr/'' = Some 0 \<or>
             str_find path ''/sbin/'' = Some 0 \<or> str_find path ''/bin/'' = Some 0
          then True
          else list_ex (\<lambda>sysProc. str_find path sysProc \<noteq> None) systemProcesses
      | None \<Rightarrow> False)"

definition analyzeProcess :: "environment \<Rightarrow> pid_t \<Rightarrow> ProcessInfo" where
  "analyzeProcess env p =
     (let info = (indeterminate env)
            \<lparr> pid := p, executablePath := [], commandLine := [], bundleIdentifier := [],
              openFiles := [], networkConnections := [], loadedLibraries := [],
              environmentVariables := [] \<rparr>;
          info = (case proc_pidinfo_TASKALLINFO env p of
                    Some taskInfo \<Rightarrow>
                      info\<lparr> ppid := pbi_ppid taskInfo, uid := pbi_uid taskInfo,
                            gid := pbi_gid taskInfo, startTime := pbi_start_tvsec taskInfo,
                            memoryUsage := pti_resident_size (ptinfo taskInfo),
                            cpuTime := pti_total_user (ptinfo taskInfo)
                                       + pti_total_system (ptinfo taskInfo) \<rparr>
                  | None \<Rightarrow> info);
          info = (case proc_pidpath env p of
                    Some pathBuffer \<Rightarrow> info\<lparr>executablePath := pathBuffer\<rparr>
                  | None \<Rightarrow> info)
      in info\<lparr> commandLine := getProcessCommandLine env p,
               openFiles := getProcessOpenFiles env p,
               networkConnections := getProcessNetworkConnections env p,
               loadedLibraries := getProcessLoadedLibraries env p,
               environmentVariables := getProcessEnvironment env p,
               isSystemProcess := isSystemCriticalProcess env p \<rparr>)"

definition getProcessInfo :: "environment \<Rightarrow> AudioVideoController \<Rightarrow> pid_t \<Rightarrow> ProcessInfo" where
  "getProcessInfo env c p =
     (case runningProcesses c p of
        Some info \<Rightarrow> info
      | None \<Rightarrow> analyzeProcess env p)"

section \<open>Database logging (DatabaseLogging.cpp)\<close>

text \<open>
  Every writer and reader locks \<open>databaseMutex\<close>, works on the database when
  \<open>sqlite3_prepare_v2\<close> succeeds, and unlocks. The constructor initialised the mutex
  with default attributes; on macOS, for which this code is written, that is the
  normal, non-recursive kind, and a thread that locks it while it is locked waits
  until it is unlocked.

  Calls are taken one at a time, not interleaved. A call that finds the mutex locked
  therefore finds it locked by a thread that will never unlock it, and waits for ever.
  The result of a call that may lock the mutex is a \<open>call\<close>: \<open>Returns c\<close> when it
  returns and leaves the controller as \<open>c\<close>, \<open>Waits c\<close> when its thread waits for
  ever, with the controller left as \<open>c\<close> for the other threads.
\<close>

datatype call = Returns AudioVideoController | Waits AudioVideoController

primrec controller_after :: "call \<Rightarrow> AudioVideoController" where
  "controller_after (Returns c) = c"
| "controller_after (Waits c) = c"

definition logFileAccess :: "FileAccess \<Rightarrow> AudioVideoController \<Rightarrow> call" where
  "logFileAccess access c =
     (if databaseMutex c then Waits c
      else
        let c = c\<lparr>databaseMutex := True\<rparr>;
            c = (case database c of
                   Some db \<Rightarrow>
                     c\<lparr>database := Some (db\<lparr>file_access := file_access db @ [access]\<rparr>)\<rparr>
                 | None \<Rightarrow> c)
        in Returns (c\<lparr>databaseMutex := False\<rparr>))"

definition logNetworkEvent :: "NetworkConnection \<Rightarrow> AudioVideoController \<Rightarrow> call" where
  "logNetworkEvent connection c =
     (if databaseMutex c then Waits c
      else
        let c = c\<lparr>databaseMutex := True\<rparr>;
            c = (case database c of
                   Some db \<Rightarrow>
                     c\<lparr>database := Some (db\<lparr>network_connections :=
                          network_connections db @ [connection]\<rparr>)\<rparr>
                 | None \<Rightarrow> c)
        in Returns (c\<lparr>databaseMutex := False\<rparr>))"

definition logSystemCall ::
  "uint64_t \<Rightarrow> pid_t \<Rightarrow> string \<Rightarrow> string \<Rightarrow> AudioVideoController \<Rightarrow> call" where
  "logSystemCall now p syscall args c =
     (if databaseMutex c then Waits c
      else
        let c = c\<lparr>databaseMutex := True\<rparr>;
            c = (case database c of
                   Some db \<Rightarrow>
                     c\<lparr>database := Some (db\<lparr>system_calls := system_calls db @
                          [\<lparr> sc_timestamp = now, sc_pid = p, sc_syscall_name = syscall,
                             sc_arguments = args, sc_return_value = ''0'' \<rparr>]\<rparr>)\<rparr>
                 | None \<Rightarrow> c)
        in Returns (c\<lparr>databaseMutex := False\<rparr>))"

text \<open>
  \<open>logProcessEvent\<close> locks the mutex, inserts the parent row and then, still holding
  the mutex, calls \<open>logFileAccess\<close> for each open file of the process
  (\<open>log_open_files\<close> is that loop). \<open>logFileAccess\<close> locks the same mutex, so with
  at least one open file the thread waits for itself and leaves the mutex locked.
  With no open file the library and environment rows are inserted
  (\<open>log_libraries_environment\<close>) and the mutex is unlocked.
\<close>

fun log_open_files :: "ProcessInfo \<Rightarrow> string list \<Rightarrow> AudioVideoController \<Rightarrow> call" where
  "log_open_files process [] c = Returns c"
| "log_open_files process (file # files) c =
     (case logFileAccess \<lparr> fa_pid = pid process, filePath = file, accessType = ''OPEN_FILE'',
                            fa_timestamp = startTime process, wasBlocked = False,
                            reason = [] \<rparr> c of
        Returns c \<Rightarrow> log_open_files process files c
      | Waits c \<Rightarrow> Waits c)"

definition log_libraries_environment ::
  "ProcessInfo \<Rightarrow> AudioVideoController \<Rightarrow> AudioVideoController" where
  "log_libraries_environment process c =
     (case database c of
        Some db \<Rightarrow>
          let db = db\<lparr>loaded_libraries := loaded_libraries db @
                map (\<lambda>lib. \<lparr> ll_timestamp = startTime process, ll_pid = pid process,
                             ll_library_path = lib, ll_load_address = ''0x0'' \<rparr>)
                    (loadedLibraries process)\<rparr>;
              db = db\<lparr>environment_vars := environment_vars db @
                map (\<lambda>env. \<lparr> ev_timestamp = startTime process, ev_pid = pid process,
                             ev_var_name = fst env, ev_var_value = snd env \<rparr>)
                    (environmentVariables process)\<rparr>
          in c\<lparr>database := Some db\<rparr>
      | None \<Rightarrow> c)"

definition logProcessEvent :: "ProcessInfo \<Rightarrow> string \<Rightarrow> AudioVideoController \<Rightarrow> call" where
  "logProcessEvent process event c =
     (if databaseMutex c then Waits c
      else
        let c = c\<lparr>databaseMutex := True\<rparr>
        in case database c of
             Some db \<Rightarrow>
               let c = c\<lparr>database := Some (db\<lparr>process_events := process_events db @
                     [\<lparr> pe_timestamp = startTime process, pe_pid = pid process,
                        pe_ppid = ppid process, pe_executable_path = executablePath process,
                        pe_command_line = commandLine process,
                        pe_bundle_id = bundleIdentifier process,
                        pe_uid = uid process, pe_gid = gid process, pe_event_type = event,
                        pe_cpu_time = cpuTime process, pe_memory_usage = memoryUsage process,
                        pe_is_system_process = isSystemProcess process \<rparr>]\<rparr>)\<rparr>
               in (case log_open_files process (openFiles process) c of
                     Returns c \<Rightarrow>
                       Returns ((log_libraries_environment process c)\<lparr>databaseMutex := False\<rparr>)
                   | Waits c \<Rightarrow> Waits c)
           | None \<Rightarrow> Returns (c\<lparr>databaseMutex := False\<rparr>))"

text \<open>
  The readers run \<open>SELECT * ... ORDER BY timestamp DESC LIMIT n\<close>. The column holds
  the \<open>uint64_t\<close> as \<open>sqlite3_bind_int64\<close> stored it, a signed 64-bit integer, and
  SQLite compares those; \<open>sqlite3_column_int64\<close> gives the same 64 bits back. SQL
  leaves the order of rows with equal timestamps open; the model keeps them in
  insertion order, and no statement below depends on that choice. A reader changes
  nothing in the controller (it unlocks the mutex it locked); its result is \<open>None\<close>
  when it waits for the mutex for ever.
\<close>

definition order_by_timestamp_desc_limit ::
  "nat \<Rightarrow> ('r \<Rightarrow> uint64_t) \<Rightarrow> 'r list \<Rightarrow> 'r list" where
  "order_by_timestamp_desc_limit n ts rows = take n (sort_key (\<lambda>r. - sint (ts r)) rows)"

definition getNetworkConnections :: "AudioVideoController \<Rightarrow> NetworkConnection list option" where
  "getNetworkConnections c =
     (if databaseMutex c then None
      else
        (case database c of
           Some db \<Rightarrow>
             Some (order_by_timestamp_desc_limit 1000 nc_timestamp (network_connections db))
         | None \<Rightarrow> Some []))"

definition getFileAccessHistory :: "AudioVideoController \<Rightarrow> FileAccess list option" where
  "getFileAccessHistory c =
     (if databaseMutex c then None
      else
        (case database c of
           Some db \<Rightarrow> Some (order_by_timestamp_desc_limit 5000 fa_timestamp (file_access db))
         | None \<Rightarrow> Some []))"

text \<open>
  \<open>scanRunningProcesses\<close> is the body of the process monitoring thread that
  \<open>initialize\<close> starts: every process id not yet in the map is analysed, stored and
  logged as DISCOVERED (\<open>scan_procs\<close> is the loop).
\<close>

fun scan_procs :: "environment \<Rightarrow> pid_t list \<Rightarrow> AudioVideoController \<Rightarrow> call" where
  "scan_procs env [] c = Returns c"
| "scan_procs env (p # procs) c =
     (if runningProcesses c p \<noteq> None then scan_procs env procs c
      else
        let info = analyzeProcess env p;
            c = c\<lparr>runningProcesses := (runningProcesses c)(p \<mapsto> info)\<rparr>
        in case logProcessEvent info ''DISCOVERED'' c of
             Returns c \<Rightarrow> scan_procs env procs c
           | Waits c \<Rightarrow> Waits c)"

definition scanRunningProcesses :: "environment \<Rightarrow> AudioVideoController \<Rightarrow> call" where
  "scanRunningProcesses env c =
     (case sysctl_KERN_PROC_ALL env of
        Some procs \<Rightarrow> scan_procs env procs c
      | None \<Rightarrow> Returns c)"

section \<open>Event handlers (ProcessMonitoring.cpp)\<close>

text \<open>
  \<open>decimal\<close> is what \<open>snprintf\<close> prints for \<open>%d\<close>. The formatted texts here are
  far shorter than the 256-byte buffers, so nothing is cut off. \<open>now\<close> is the value
  of \<open>mach_absolute_time()\<close> during the handler.
\<close>

fun decimal_nat :: "nat \<Rightarrow> string" where
  "decimal_nat n =
     (if n < 10 then [char_of (48 + n)]
      else decimal_nat (n div 10) @ [char_of (48 + n mod 10)])"

definition decimal :: "int \<Rightarrow> string" where
  "decimal i = (if i < 0 then CHR ''-'' # decimal_nat (nat (- i)) else decimal_nat (nat i))"

text \<open>
  \<open>handleProcessExec\<close> builds the snapshot (every member of the local is assigned,
  except \<open>bundleIdentifier\<close>, which stays empty), classifies the capabilities from
  the loaded libraries, stores the snapshot under the process id and logs it.
  \<open>analyze_library\<close> is the body of its loop over the loaded libraries and
  \<open>exec_snapshot\<close> the snapshot as it stands after the loop.
\<close>

definition analyze_library :: "string \<Rightarrow> ProcessInfo \<Rightarrow> ProcessInfo" where
  "analyze_library lib processInfo =
     (let processInfo =
            (if str_find lib ''AVFoundation'' \<noteq> None \<or>
                str_find lib ''CoreAudio'' \<noteq> None \<or>
                str_find lib ''AudioUnit'' \<noteq> None
             then processInfo\<lparr>hasAudioAccess := True\<rparr> else processInfo);
          processInfo =
            (if str_find lib ''AVCapture'' \<noteq> None \<or>
                str_find lib ''CoreMediaIO'' \<noteq> None
             then processInfo\<lparr>hasVideoAccess := True\<rparr> else processInfo)
      in if str_find lib ''Network'' \<noteq> None \<or>
            str_find lib ''CFNetwork'' \<noteq> None
         then processInfo\<lparr>hasNetworkAccess := True\<rparr> else processInfo)"

definition exec_snapshot :: "environment \<Rightarrow> uint64_t \<Rightarrow> es_message \<Rightarrow> ProcessInfo" where
  "exec_snapshot env now m =
     (let p = process_pid m;
          processInfo = analyzeProcess env p;
          processInfo = processInfo
            \<lparr> pid := p, ppid := process_ppid m,
              executablePath := process_executable_path m,
              uid := process_uid m, gid := process_gid m, startTime := now,
              commandLine := getProcessCommandLine env p,
              openFiles := getProcessOpenFiles env p,
              networkConnections := getProcessNetworkConnections env p,
              loadedLibraries := getProcessLoadedLibraries env p,
              environmentVariables := getProcessEnvironment env p,
              memoryUsage := getProcessMemoryUsage env p,
              cpuTime := getProcessCPUTime env p,
              isSystemProcess := isSystemCriticalProcess env p,
              hasAudioAccess := False, hasVideoAccess := False,
              hasNetworkAccess := False, hasFileSystemAccess := True \<rparr>
      in fold analyze_library (loadedLibraries processInfo) processInfo)"

definition handleProcessExec ::
  "environment \<Rightarrow> uint64_t \<Rightarrow> AudioVideoController \<Rightarrow> es_message \<Rightarrow> call" where
  "handleProcessExec env now c m =
     (let processInfo = exec_snapshot env now m;
          c = c\<lparr>runningProcesses := (runningProcesses c)(process_pid m \<mapsto> processInfo)\<rparr>
      in logProcessEvent processInfo ''EXEC'' c)"

definition handleProcessExit :: "AudioVideoController \<Rightarrow> es_message \<Rightarrow> call" where
  "handleProcessExit c m =
     (case runningProcesses c (process_pid m) of
        Some processInfo \<Rightarrow>
          (case logProcessEvent processInfo ''EXIT'' c of
             Returns c \<Rightarrow>
               Returns (c\<lparr>runningProcesses := (runningProcesses c)(process_pid m := None)\<rparr>)
           | Waits c \<Rightarrow> Waits c)
      | None \<Rightarrow> Returns c)"

definition handleFileOpen :: "uint64_t \<Rightarrow> AudioVideoController \<Rightarrow> es_message \<Rightarrow> call" where
  "handleFileOpen now c m =
     (case open_file_path m of
        Some path \<Rightarrow>
          let access = \<lparr> fa_pid = process_pid m, filePath = path, accessType = ''OPEN'',
                         fa_timestamp = now, wasBlocked = False, reason = [] \<rparr>;
              isAudioDevice = (str_find path ''/dev/audio'' \<noteq> None \<or>
                               str_find path ''coreaudio'' \<noteq> None);
              isVideoDevice = (str_find path ''/dev/video'' \<noteq> None \<or>
                               str_find path ''AVCapture'' \<noteq> None);
              access =
                (if isAudioDevice \<and> \<not> microphoneEnabled c then
                   access\<lparr> wasBlocked := True,
                           reason := ''Microphone disabled by system extension'' \<rparr>
                 else if isVideoDevice \<and> \<not> cameraEnabled c then
                   access\<lparr> wasBlocked := True,
                           reason := ''Camera disabled by system extension'' \<rparr>
                 else access)
          in (case logFileAccess access c of
                Returns c \<Rightarrow>
                  let c = c\<lparr>recentFileAccess := recentFileAccess c @ [access]\<rparr>
                  in Returns (if length (recentFileAccess c) > 10000
                              then c\<lparr>recentFileAccess := drop 1000 (recentFileAccess c)\<rparr>
                              else c)
              | Waits c \<Rightarrow> Waits c)
      | None \<Rightarrow> Returns c)"

definition handleFileWrite :: "uint64_t \<Rightarrow> AudioVideoController \<Rightarrow> es_message \<Rightarrow> call" where
  "handleFileWrite now c m =
     (case write_target_path m of
        Some path \<Rightarrow>
          logFileAccess \<lparr> fa_pid = process_pid m, filePath = path, accessType = ''WRITE'',
                          fa_timestamp = now, wasBlocked = False, reason = [] \<rparr> c
      | None \<Rightarrow> Returns c)"

definition handleFileDelete :: "uint64_t \<Rightarrow> AudioVideoController \<Rightarrow> es_message \<Rightarrow> call" where
  "handleFileDelete now c m =
     (case unlink_target_path m of
        Some path \<Rightarrow>
          logFileAccess \<lparr> fa_pid = process_pid m, filePath = path, accessType = ''DELETE'',
                          fa_timestamp = now, wasBlocked = False, reason = [] \<rparr> c
      | None \<Rightarrow> Returns c)"

definition handleMmap :: "uint64_t \<Rightarrow> AudioVideoController \<Rightarrow> es_message \<Rightarrow> call" where
  "handleMmap now c m = logSystemCall now (process_pid m) ''mmap'' ''Memory mapping event'' c"

definition handleSignal :: "uint64_t \<Rightarrow> AudioVideoController \<Rightarrow> es_message \<Rightarrow> call" where
  "handleSignal now c m =
     logSystemCall now (process_pid m) ''kill''
       (''signal='' @ decimal (signal_sig m) @ '' target_pid='' @ decimal (signal_target_pid m)) c"

definition handleFork :: "uint64_t \<Rightarrow> AudioVideoController \<Rightarrow> es_message \<Rightarrow> call" where
  "handleFork now c m = logSystemCall now (process_pid m) ''fork'' ''Process forked'' c"

definition handleSetuid :: "uint64_t \<Rightarrow> AudioVideoController \<Rightarrow> es_message \<Rightarrow> call" where
  "handleSetuid now c m =
     logSystemCall now (process_pid m) ''setuid'' (''new_uid='' @ decimal (sint (setuid_uid m))) c"

section \<open>The dispatcher of ProcessMonitoring.cpp\<close>

text \<open>
  This \<open>handleESEvent\<close> routes the event to its handler (\<open>route_PM\<close> is the
  \<open>switch\<close>) and then, for an event of action type \<open>AUTH\<close>, sends
  \<open>ES_AUTH_RESULT_ALLOW\<close>. Its result is the outcome of the handler together with
  the responses sent. When the handler waits for ever no response is sent: the response
  comes after the handler.
\<close>

definition route_PM ::
  "environment \<Rightarrow> uint64_t \<Rightarrow> AudioVideoController \<Rightarrow> es_message \<Rightarrow> call" where
  "route_PM env now c m =
     (case event_type m of
        ES_EVENT_TYPE_NOTIFY_EXEC \<Rightarrow> handleProcessExec env now c m
      | ES_EVENT_TYPE_NOTIFY_EXIT \<Rightarrow> handleProcessExit c m
      | ES_EVENT_TYPE_NOTIFY_FORK \<Rightarrow> handleFork now c m
      | ES_EVENT_TYPE_AUTH_OPEN \<Rightarrow> handleFileOpen now c m
      | ES_EVENT_TYPE_NOTIFY_OPEN \<Rightarrow> handleFileOpen now c m
      | ES_EVENT_TYPE_NOTIFY_WRITE \<Rightarrow> handleFileWrite now c m
      | ES_EVENT_TYPE_AUTH_UNLINK \<Rightarrow> handleFileDelete now c m
      | ES_EVENT_TYPE_NOTIFY_UNLINK \<Rightarrow> handleFileDelete now c m
      | ES_EVENT_TYPE_NOTIFY_MMAP \<Rightarrow> handleMmap now c m
      | ES_EVENT_TYPE_NOTIFY_SIGNAL \<Rightarrow> handleSignal now c m
      | ES_EVENT_TYPE_NOTIFY_SETUID \<Rightarrow> handleSetuid now c m
      | _ \<Rightarrow> Returns c)"

definition handleESEvent_PM ::
  "environment \<Rightarrow> uint64_t \<Rightarrow> AudioVideoController \<Rightarrow> es_message
     \<Rightarrow> call \<times> es_auth_result list" where
  "handleESEvent_PM env now c m =
     (case route_PM env now c m of
        Returns c \<Rightarrow>
          (Returns c, if action_type m = ES_ACTION_TYPE_AUTH then [ES_AUTH_RESULT_ALLOW] else [])
      | Waits c \<Rightarrow> (Waits c, []))"

text \<open>
  A run of file-open events on the event thread, each with the clock value of its
  handler. The thread handles the next event when the handler of the one before has
  returned.
\<close>

fun file_opens :: "AudioVideoController \<Rightarrow> (uint64_t \<times> es_message) list \<Rightarrow> call" where
  "file_opens c [] = Returns c"
| "file_opens c ((now, m) # rest) =
     (case handleFileOpen now c m of
        Returns c \<Rightarrow> file_opens c rest
      | Waits c \<Rightarrow> Waits c)"

text \<open>The rows of the \<open>file_access\<close> table, none without a usable handle.\<close>

definition file_rows :: "AudioVideoController \<Rightarrow> FileAccess list" where
  "file_rows c = (case database c of Some db \<Rightarrow> file_access db | None \<Rightarrow> [])"

section \<open>Markers and sample inputs\<close>

text \<open>
  The needles of the two \<open>strstr\<close> chains of AudioVideoController.cpp, and the
  framework name fragments that \<open>handleProcessExec\<close> looks for.
\<close>

definition audio_markers :: "string list" where
  "audio_markers = [''/dev/audio'', ''coreaudio'', ''AudioUnit'', ''AVAudioEngine'']"

definition video_markers :: "string list" where
  "video_markers = [''/dev/video'', ''AVCapture'', ''CoreMediaIO'', ''VDCAssistant'']"

definition audio_frameworks :: "string list" where
  "audio_frameworks = [''AVFoundation'', ''CoreAudio'', ''AudioUnit'']"

definition video_frameworks :: "string list" where
  "video_frameworks = [''AVCapture'', ''CoreMediaIO'']"

definition network_frameworks :: "string list" where
  "network_frameworks = [''Network'', ''CFNetwork'']"

text \<open>Concrete inputs on which the theorems below are exercised.\<close>

definition empty_message :: es_message where
  "empty_message =
     \<lparr> event_type = ES_EVENT_TYPE_NOTIFY_CLOSE, action_type = ES_ACTION_TYPE_NOTIFY,
       process_pid = 0, process_ppid = 0, process_uid = 0, process_gid = 0,
       process_executable_path = [], open_file_path = None, write_target_path = None,
       unlink_target_path = None, exec_target_path = [], signal_sig = 0,
       signal_target_pid = 0, fork_child_pid = 0, setuid_uid = 0 \<rparr>"

definition auth_open_message :: "pid_t \<Rightarrow> string \<Rightarrow> es_message" where
  "auth_open_message p path =
     empty_message\<lparr> event_type := ES_EVENT_TYPE_AUTH_OPEN, action_type := ES_ACTION_TYPE_AUTH,
                    process_pid := p, open_file_path := Some path \<rparr>"

definition empty_database :: sqlite3 where
  "empty_database =
     \<lparr> process_events = [], file_access = [], network_connections = [],
       system_calls = [], loaded_libraries = [], environment_vars = [] \<rparr>"

definition zero_ProcessInfo :: ProcessInfo where
  "zero_ProcessInfo =
     \<lparr> pid = 0, ppid = 0, executablePath = [], commandLine = [], bundleIdentifier = [],
       uid = 0, gid = 0, startTime = 0, cpuTime = 0, memoryUsage = 0, openFiles = [],
       networkConnections = [], loadedLibraries = [], environmentVariables = [],
       isSystemProcess = False, hasAudioAccess = False, hasVideoAccess = False,
       hasNetworkAccess = False, hasFileSystemAccess = False \<rparr>"

text \<open>A machine on which every introspection call fails, as for a process that is gone.\<close>

definition no_such_process :: environment where
  "no_such_process =
     \<lparr> proc_pidinfo_TASKALLINFO = (\<lambda>p. None), proc_pidinfo_TASKINFO = (\<lambda>p. None),
       proc_pidpath = (\<lambda>p. None), getProcessCommandLine = (\<lambda>p. []),
       getProcessOpenFiles = (\<lambda>p. []), getProcessNetworkConnections = (\<lambda>p. []),
       getProcessLoadedLibraries = (\<lambda>p. []), getProcessEnvironment = (\<lambda>p. []),
       sysctl_KERN_PROC_ALL = None, indeterminate = zero_ProcessInfo \<rparr>"

text \<open>The controller after construction and a successful \<open>initializeDatabase\<close> on a new file.\<close>

definition fresh_controller :: AudioVideoController where
  "fresh_controller = AudioVideoController_ctor\<lparr>database := Some empty_database\<rparr>"

text \<open>
  A machine on which process 500 runs with one open file, and is the only process
  that \<open>sysctl\<close> lists.
\<close>

definition one_open_file :: environment where
  "one_open_file =
     no_such_process\<lparr> sysctl_KERN_PROC_ALL := Some [500],
                       getProcessOpenFiles := (\<lambda>p. if p = 500 then [''/dev/null''] else []) \<rparr>"

text \<open>A file-access row with a given timestamp.\<close>

definition sample_access :: "uint64_t \<Rightarrow> FileAccess" where
  "sample_access t =
     \<lparr> fa_pid = 500, filePath = ''/tmp/a'', accessType = ''OPEN'', fa_timestamp = t,
       wasBlocked = False, reason = [] \<rparr>"

section \<open>Properties\<close>

lemma strstr_sublist: "strstr hay needle \<noteq> None \<longleftrightarrow> sublist needle hay"
  by (induction hay) (auto simp: sublist_Cons_right)

lemma str_find_sublist: "str_find hay needle \<noteq> None \<longleftrightarrow> sublist needle hay"
  by (induction hay) (auto simp: sublist_Cons_right)

lemma audio_device_path_markers:
  "audio_device_path path \<longleftrightarrow> (\<exists>mk \<in> set audio_markers. sublist mk path)"
  unfolding audio_device_path_def audio_markers_def strstr_sublist by simp

lemma video_device_path_markers:
  "video_device_path path \<longleftrightarrow> (\<exists>mk \<in> set video_markers. sublist mk path)"
  unfolding video_device_path_def video_markers_def strstr_sublist by simp

lemmas sample_defs =
  auth_open_message_def empty_message_def fresh_controller_def AudioVideoController_ctor_def
  empty_database_def

subsection \<open>The database mutex\<close>

lemma logFileAccess_locked: "databaseMutex c \<Longrightarrow> logFileAccess access c = Waits c"
  by (simp add: logFileAccess_def)

lemma logFileAccess_free:
  assumes "\<not> databaseMutex c"
  shows "logFileAccess access c =
           Returns (case database c of
                      Some db \<Rightarrow>
                        c\<lparr>database := Some (db\<lparr>file_access := file_access db @ [access]\<rparr>)\<rparr>
                    | None \<Rightarrow> c)"
  using assms by (cases c) (simp add: logFileAccess_def Let_def split: option.splits)

lemma logSystemCall_locked: "databaseMutex c \<Longrightarrow> logSystemCall now p syscall args c = Waits c"
  by (simp add: logSystemCall_def)

lemma logSystemCall_free:
  assumes "\<not> databaseMutex c"
  shows "\<exists>c'. logSystemCall now p syscall args c = Returns c' \<and> \<not> databaseMutex c' \<and>
              file_rows c' = file_rows c"
  using assms by (simp add: logSystemCall_def Let_def file_rows_def split: option.splits)

lemma logSystemCall_after:
  "file_rows (controller_after (logSystemCall now p syscall args c)) = file_rows c"
  by (simp add: logSystemCall_def Let_def file_rows_def split: option.splits)

lemma log_open_files_locked:
  "databaseMutex c \<Longrightarrow>
   log_open_files process files c = (if files = [] then Returns c else Waits c)"
  by (cases files) (simp_all add: logFileAccess_locked)

lemma logProcessEvent_locked: "databaseMutex c \<Longrightarrow> logProcessEvent process event c = Waits c"
  by (simp add: logProcessEvent_def)

lemma logProcessEvent_after:
  "file_rows (controller_after (logProcessEvent process event c)) = file_rows c"
  "runningProcesses (controller_after (logProcessEvent process event c)) = runningProcesses c"
  "recentFileAccess (controller_after (logProcessEvent process event c)) = recentFileAccess c"
  by (simp_all add: logProcessEvent_def Let_def log_open_files_locked
      log_libraries_environment_def file_rows_def split: option.splits)

lemma logProcessEvent_waits:
  assumes "\<not> databaseMutex c" "database c \<noteq> None" "openFiles process \<noteq> []"
  shows "\<exists>c'. logProcessEvent process event c = Waits c' \<and> databaseMutex c'"
  using assms
  by (auto simp: logProcessEvent_def Let_def log_open_files_locked)

lemma logProcessEvent_returns:
  assumes "\<not> databaseMutex c" "openFiles process = [] \<or> database c = None"
  shows "\<exists>c'. logProcessEvent process event c = Returns c' \<and> \<not> databaseMutex c'"
  using assms
  by (auto simp: logProcessEvent_def Let_def log_open_files_locked split: option.splits)

lemma logProcessEvent_Returns_free:
  "logProcessEvent process event c = Returns c' \<Longrightarrow> \<not> databaseMutex c \<and> \<not> databaseMutex c'"
  by (auto simp: logProcessEvent_def Let_def log_open_files_locked split: option.splits if_splits)

lemma analyze_library_open_files:
  "openFiles (fold analyze_library libs info) = openFiles info"
  by (induction libs arbitrary: info) (auto simp: analyze_library_def Let_def)

lemma exec_snapshot_open_files:
  "openFiles (exec_snapshot env now m) = getProcessOpenFiles env (process_pid m)"
  by (simp add: exec_snapshot_def Let_def analyze_library_open_files)

lemma handleFileOpen_locked:
  "databaseMutex c \<Longrightarrow> open_file_path m = Some path \<Longrightarrow> handleFileOpen now c m = Waits c"
  by (simp add: handleFileOpen_def Let_def logFileAccess_locked)

lemma handleFileDelete_locked:
  "databaseMutex c \<Longrightarrow> unlink_target_path m = Some path \<Longrightarrow> handleFileDelete now c m = Waits c"
  by (simp add: handleFileDelete_def logFileAccess_locked)

lemma handleFileOpen_free:
  assumes "\<not> databaseMutex c"
  shows "\<exists>c'. handleFileOpen now c m = Returns c' \<and> \<not> databaseMutex c'"
  using assms
  by (cases c) (auto simp: handleFileOpen_def Let_def logFileAccess_free split: option.splits)

lemma handleFileDelete_free:
  assumes "\<not> databaseMutex c"
  shows "\<exists>c'. handleFileDelete now c m = Returns c' \<and> \<not> databaseMutex c'"
  using assms
  by (auto simp: handleFileDelete_def logFileAccess_free split: option.splits)

lemma scan_procs_waits:
  assumes "\<not> databaseMutex c" "database c \<noteq> None" "runningProcesses c p = None"
    and "getProcessOpenFiles env p \<noteq> []"
  shows "\<exists>c'. scan_procs env (p # procs) c = Waits c' \<and> databaseMutex c'"
proof -
  let ?info = "analyzeProcess env p"
  let ?c = "c\<lparr>runningProcesses := (runningProcesses c)(p \<mapsto> ?info)\<rparr>"
  have o: "openFiles ?info \<noteq> []"
    using assms(4) by (simp add: analyzeProcess_def Let_def)
  have "\<exists>c'. logProcessEvent ?info ''DISCOVERED'' ?c = Waits c' \<and> databaseMutex c'"
    using assms(1,2) o by (intro logProcessEvent_waits) simp_all
  then show ?thesis
    using assms(3) by (auto simp: Let_def)
qed

lemma handleProcessExec_waits:
  assumes "\<not> databaseMutex c" "database c \<noteq> None"
    and "getProcessOpenFiles env (process_pid m) \<noteq> []"
  shows "\<exists>c'. handleProcessExec env now c m = Waits c' \<and> databaseMutex c'"
  unfolding handleProcessExec_def Let_def
  using assms by (intro logProcessEvent_waits) (simp_all add: exec_snapshot_open_files)

lemma route_PM_auth_free:
  assumes "delivered m" "action_type m = ES_ACTION_TYPE_AUTH" "\<not> databaseMutex c"
  shows "\<exists>c'. route_PM env now c m = Returns c' \<and> \<not> databaseMutex c'"
  using assms handleFileOpen_free [of c now m] handleFileDelete_free [of c now m]
  by (cases "event_type m") (simp_all add: route_PM_def delivered_def)

subsection \<open>Authorization decisions\<close>

text \<open>
  C1, as amended. For an authorization open event the dispatcher of
  AudioVideoController.cpp sends: for a path with an audio marker, ALLOW when the
  microphone is enabled and DENY when it is not; for a path with a video marker and no
  audio marker, ALLOW when the camera is enabled and DENY when it is not; for a path
  with neither marker, and for a null path, ALLOW.
\<close>

theorem C1_device_open_decision:
  assumes "event_type m = ES_EVENT_TYPE_AUTH_OPEN"
  shows "(open_file_path m = Some path \<and> (\<exists>mk \<in> set audio_markers. sublist mk path) \<longrightarrow>
            handleESEvent_AVC c m =
              [if microphoneEnabled c then ES_AUTH_RESULT_ALLOW else ES_AUTH_RESULT_DENY]) \<and>
         (open_file_path m = Some path \<and> (\<exists>mk \<in> set video_markers. sublist mk path) \<and>
          \<not> (\<exists>mk \<in> set audio_markers. sublist mk path) \<longrightarrow>
            handleESEvent_AVC c m =
              [if cameraEnabled c then ES_AUTH_RESULT_ALLOW else ES_AUTH_RESULT_DENY]) \<and>
         (open_file_path m = Some path \<and> \<not> (\<exists>mk \<in> set video_markers. sublist mk path) \<and>
          \<not> (\<exists>mk \<in> set audio_markers. sublist mk path) \<longrightarrow>
            handleESEvent_AVC c m = [ES_AUTH_RESULT_ALLOW]) \<and>
         (open_file_path m = None \<longrightarrow> handleESEvent_AVC c m = [ES_AUTH_RESULT_ALLOW])"
  using assms
  by (simp add: handleESEvent_AVC_def isMicrophoneEnabled_def isCameraEnabled_def
      audio_device_path_markers video_device_path_markers)

theorem C1_device_open_decision_witness:
  "event_type (auth_open_message 500 ''/dev/video0'') = ES_EVENT_TYPE_AUTH_OPEN \<and>
   open_file_path (auth_open_message 500 ''/dev/video0'') = Some ''/dev/video0'' \<and>
   (\<exists>mk \<in> set video_markers. sublist mk ''/dev/video0'') \<and>
   \<not> (\<exists>mk \<in> set audio_markers. sublist mk ''/dev/video0'') \<and>
   handleESEvent_AVC (fresh_controller\<lparr>cameraEnabled := False\<rparr>)
     (auth_open_message 500 ''/dev/video0'') = [ES_AUTH_RESULT_DENY]"
proof -
  have v: "\<exists>mk \<in> set video_markers. sublist mk ''/dev/video0''"
    by (simp add: video_markers_def strstr_sublist [symmetric])
  have a: "\<not> (\<exists>mk \<in> set audio_markers. sublist mk ''/dev/video0'')"
    by (simp add: audio_markers_def strstr_sublist [symmetric])
  have e: "event_type (auth_open_message 500 ''/dev/video0'') = ES_EVENT_TYPE_AUTH_OPEN"
    and p: "open_file_path (auth_open_message 500 ''/dev/video0'') = Some ''/dev/video0''"
    by (simp_all add: auth_open_message_def)
  have f: "\<not> cameraEnabled (fresh_controller\<lparr>cameraEnabled := False\<rparr>)"
    by simp
  show ?thesis
    using C1_device_open_decision
            [OF e, of "''/dev/video0''" "fresh_controller\<lparr>cameraEnabled := False\<rparr>"]
          v a e p f
    by simp
qed

text \<open>
  C1 as stated fails where a path carries both kinds of marker: the audio check comes
  first and returns. With the camera disabled and the microphone enabled, the path
  below holds the video marker AVCapture and the answer is ALLOW.
\<close>

theorem C1_video_marker_counterexample:
  "event_type (auth_open_message 500 ''/Library/AVCaptureAudioUnit'') = ES_EVENT_TYPE_AUTH_OPEN \<and>
   sublist ''AVCapture'' ''/Library/AVCaptureAudioUnit'' \<and>
   \<not> cameraEnabled (fresh_controller\<lparr>cameraEnabled := False\<rparr>) \<and>
   handleESEvent_AVC (fresh_controller\<lparr>cameraEnabled := False\<rparr>)
     (auth_open_message 500 ''/Library/AVCaptureAudioUnit'') = [ES_AUTH_RESULT_ALLOW]"
  by (simp add: handleESEvent_AVC_def audio_device_path_def isMicrophoneEnabled_def
      sample_defs strstr_sublist [symmetric])

text \<open>
  C2. The dispatcher of AudioVideoController.cpp sends exactly one response for a
  delivered event of action type AUTH (ALLOW for every event type but AUTH_OPEN) and
  none for one of action type NOTIFY. The dispatcher of ProcessMonitoring.cpp sends
  none for NOTIFY, and for AUTH it returns and sends ALLOW when the database mutex is
  free. When the mutex is locked it sends no response to an authorization open or
  unlink event with a path: the handler waits in \<open>logFileAccess\<close> before the response
  is reached. The mutex is locked for ever as soon as \<open>logProcessEvent\<close> meets a
  process with an open file on a usable database, in \<open>scanRunningProcesses\<close> on the
  monitoring thread or in \<open>handleProcessExec\<close> on the event thread.
\<close>

theorem C2_responses_and_the_locked_mutex:
  "(delivered m \<and> action_type m = ES_ACTION_TYPE_AUTH \<longrightarrow>
      (\<exists>r. handleESEvent_AVC c m = [r])) \<and>
   (delivered m \<and> action_type m = ES_ACTION_TYPE_AUTH \<and>
    event_type m \<noteq> ES_EVENT_TYPE_AUTH_OPEN \<longrightarrow>
      handleESEvent_AVC c m = [ES_AUTH_RESULT_ALLOW]) \<and>
   (delivered m \<and> action_type m = ES_ACTION_TYPE_NOTIFY \<longrightarrow>
      handleESEvent_AVC c m = [] \<and> snd (handleESEvent_PM env now c m) = []) \<and>
   (delivered m \<and> action_type m = ES_ACTION_TYPE_AUTH \<and> \<not> databaseMutex c \<longrightarrow>
      (\<exists>c'. handleESEvent_PM env now c m = (Returns c', [ES_AUTH_RESULT_ALLOW]) \<and>
            \<not> databaseMutex c')) \<and>
   (databaseMutex c \<and> event_type m = ES_EVENT_TYPE_AUTH_OPEN \<and> open_file_path m = Some path \<longrightarrow>
      handleESEvent_PM env now c m = (Waits c, [])) \<and>
   (databaseMutex c \<and> event_type m = ES_EVENT_TYPE_AUTH_UNLINK \<and>
    unlink_target_path m = Some path \<longrightarrow>
      handleESEvent_PM env now c m = (Waits c, [])) \<and>
   (\<not> databaseMutex c \<and> database c \<noteq> None \<and> sysctl_KERN_PROC_ALL env = Some (p # procs) \<and>
    runningProcesses c p = None \<and> getProcessOpenFiles env p \<noteq> [] \<longrightarrow>
      (\<exists>c'. scanRunningProcesses env c = Waits c' \<and> databaseMutex c')) \<and>
   (\<not> databaseMutex c \<and> database c \<noteq> None \<and>
    getProcessOpenFiles env (process_pid m) \<noteq> [] \<longrightarrow>
      (\<exists>c'. handleProcessExec env now c m = Waits c' \<and> databaseMutex c'))"
proof -
  have avc_auth: "\<exists>r. handleESEvent_AVC c m = [r]"
    if "delivered m" "action_type m = ES_ACTION_TYPE_AUTH"
    using that by (auto simp: handleESEvent_AVC_def delivered_def split: option.splits)
  have avc_default: "handleESEvent_AVC c m = [ES_AUTH_RESULT_ALLOW]"
    if "delivered m" "action_type m = ES_ACTION_TYPE_AUTH"
      "event_type m \<noteq> ES_EVENT_TYPE_AUTH_OPEN"
    using that by (auto simp: handleESEvent_AVC_def delivered_def)
  have avc_notify: "handleESEvent_AVC c m = []"
    if "delivered m" "action_type m = ES_ACTION_TYPE_NOTIFY"
    using that by (auto simp: handleESEvent_AVC_def delivered_def)
  have pm_notify: "snd (handleESEvent_PM env now c m) = []"
    if "action_type m = ES_ACTION_TYPE_NOTIFY"
    using that by (simp add: handleESEvent_PM_def split: call.splits)
  have pm_auth: "\<exists>c'. handleESEvent_PM env now c m = (Returns c', [ES_AUTH_RESULT_ALLOW]) \<and>
            \<not> databaseMutex c'"
    if "delivered m" "action_type m = ES_ACTION_TYPE_AUTH" "\<not> databaseMutex c"
    using route_PM_auth_free [OF that, of env now] that(2)
    by (auto simp: handleESEvent_PM_def)
  have pm_open: "handleESEvent_PM env now c m = (Waits c, [])"
    if "databaseMutex c" "event_type m = ES_EVENT_TYPE_AUTH_OPEN" "open_file_path m = Some path"
    using that by (simp add: handleESEvent_PM_def route_PM_def handleFileOpen_locked)
  have pm_unlink: "handleESEvent_PM env now c m = (Waits c, [])"
    if "databaseMutex c" "event_type m = ES_EVENT_TYPE_AUTH_UNLINK"
      "unlink_target_path m = Some path"
    using that by (simp add: handleESEvent_PM_def route_PM_def handleFileDelete_locked)
  have scan: "\<exists>c'. scanRunningProcesses env c = Waits c' \<and> databaseMutex c'"
    if "\<not> databaseMutex c" "database c \<noteq> None" "sysctl_KERN_PROC_ALL env = Some (p # procs)"
      "runningProcesses c p = None" "getProcessOpenFiles env p \<noteq> []"
    using scan_procs_waits [OF that(1,2,4,5), of procs] that(3)
    by (simp add: scanRunningProcesses_def)
  have exec: "\<exists>c'. handleProcessExec env now c m = Waits c' \<and> databaseMutex c'"
    if "\<not> databaseMutex c" "database c \<noteq> None"
      "getProcessOpenFiles env (process_pid m) \<noteq> []"
    using that by (rule handleProcessExec_waits)
  show ?thesis
    using avc_auth avc_default avc_notify pm_notify pm_auth pm_open pm_unlink scan exec
    by blast
qed

text \<open>
  The failing run: the controller after construction with its database opened; the
  monitoring thread scans a machine on which process 500 has an open file and waits
  for ever with the mutex locked; process 501 then opens /tmp/report (an authorization
  event) and the dispatcher of ProcessMonitoring.cpp sends no response.
\<close>

theorem C2_responses_and_the_locked_mutex_witness:
  "\<not> databaseMutex fresh_controller \<and> database fresh_controller \<noteq> None \<and>
   sysctl_KERN_PROC_ALL one_open_file = Some [500] \<and>
   runningProcesses fresh_controller 500 = None \<and>
   getProcessOpenFiles one_open_file 500 \<noteq> [] \<and>
   delivered (auth_open_message 501 ''/tmp/report'') \<and>
   action_type (auth_open_message 501 ''/tmp/report'') = ES_ACTION_TYPE_AUTH \<and>
   (\<exists>c'. scanRunningProcesses one_open_file fresh_controller = Waits c' \<and> databaseMutex c' \<and>
         handleESEvent_PM one_open_file 7 c' (auth_open_message 501 ''/tmp/report'')
           = (Waits c', []) \<and>
         handleESEvent_AVC c' (auth_open_message 501 ''/tmp/report'') = [ES_AUTH_RESULT_ALLOW]) \<and>
   (\<exists>c'. handleESEvent_PM one_open_file 7 fresh_controller (auth_open_message 501 ''/tmp/report'')
           = (Returns c', [ES_AUTH_RESULT_ALLOW]))"
proof -
  let ?m = "auth_open_message 501 ''/tmp/report''"
  have h: "\<not> databaseMutex fresh_controller" "database fresh_controller \<noteq> None"
    "sysctl_KERN_PROC_ALL one_open_file = Some [500]"
    "runningProcesses fresh_controller 500 = None"
    "getProcessOpenFiles one_open_file 500 \<noteq> []"
    by (simp_all add: fresh_controller_def AudioVideoController_ctor_def one_open_file_def)
  have m: "delivered ?m" "action_type ?m = ES_ACTION_TYPE_AUTH"
    "event_type ?m = ES_EVENT_TYPE_AUTH_OPEN" "open_file_path ?m = Some ''/tmp/report''"
    by (simp_all add: delivered_def auth_open_message_def empty_message_def)
  obtain c1 where c1: "scanRunningProcesses one_open_file fresh_controller = Waits c1"
    "databaseMutex c1"
    using C2_responses_and_the_locked_mutex
            [of ?m fresh_controller one_open_file 7 "''/tmp/report''" 500 "[]"] h
    by blast
  have pm: "handleESEvent_PM one_open_file 7 c1 ?m = (Waits c1, [])"
    using C2_responses_and_the_locked_mutex [of ?m c1 one_open_file 7 "''/tmp/report''"] c1(2) m
    by blast
  have avc: "handleESEvent_AVC c1 ?m = [ES_AUTH_RESULT_ALLOW]"
    by (simp add: handleESEvent_AVC_def auth_open_message_def empty_message_def
        audio_device_path_def video_device_path_def)
  have free: "\<exists>c'. handleESEvent_PM one_open_file 7 fresh_controller ?m
           = (Returns c', [ES_AUTH_RESULT_ALLOW])"
    using C2_responses_and_the_locked_mutex [of ?m fresh_controller one_open_file 7] h(1) m(1,2)
    by blast
  show ?thesis
    using h m(1,2) c1 pm avc free by blast
qed

text \<open>
  C3. Process 500 opens /dev/audio1 (an authorization event) while the microphone is
  disabled and the database mutex is free. The dispatcher of AudioVideoController.cpp
  answers DENY and writes no record (it returns nothing but its responses). The
  dispatcher of ProcessMonitoring.cpp appends to the \<open>file_access\<close> table a record
  with \<open>wasBlocked\<close> set and the reason text of the microphone, and then answers
  ALLOW. Neither dispatcher does both things the scenario asks for.
\<close>

theorem C3_audio_open_microphone_disabled:
  assumes "\<not> microphoneEnabled c" and "database c = Some db" and "\<not> databaseMutex c"
  shows "handleESEvent_AVC c (auth_open_message 500 ''/dev/audio1'') = [ES_AUTH_RESULT_DENY] \<and>
         (\<exists>c'. handleESEvent_PM env now c (auth_open_message 500 ''/dev/audio1'')
                  = (Returns c', [ES_AUTH_RESULT_ALLOW]) \<and>
                file_rows c' = file_access db @
                  [\<lparr> fa_pid = 500, filePath = ''/dev/audio1'', accessType = ''OPEN'',
                     fa_timestamp = now, wasBlocked = True,
                     reason = ''Microphone disabled by system extension'' \<rparr>])"
proof -
  have avc: "handleESEvent_AVC c (auth_open_message 500 ''/dev/audio1'') = [ES_AUTH_RESULT_DENY]"
    using assms(1)
    by (simp add: handleESEvent_AVC_def auth_open_message_def empty_message_def
        audio_device_path_def isMicrophoneEnabled_def)
  have pm: "\<exists>c'. handleESEvent_PM env now c (auth_open_message 500 ''/dev/audio1'')
                  = (Returns c', [ES_AUTH_RESULT_ALLOW]) \<and>
                file_rows c' = file_access db @
                  [\<lparr> fa_pid = 500, filePath = ''/dev/audio1'', accessType = ''OPEN'',
                     fa_timestamp = now, wasBlocked = True,
                     reason = ''Microphone disabled by system extension'' \<rparr>]"
    using assms
    by (simp add: handleESEvent_PM_def route_PM_def handleFileOpen_def logFileAccess_free
        auth_open_message_def empty_message_def file_rows_def Let_def)
  show ?thesis using avc pm by simp
qed

theorem C3_audio_open_microphone_disabled_witness:
  "\<not> microphoneEnabled (fresh_controller\<lparr>microphoneEnabled := False\<rparr>) \<and>
   database (fresh_controller\<lparr>microphoneEnabled := False\<rparr>) = Some empty_database \<and>
   \<not> databaseMutex (fresh_controller\<lparr>microphoneEnabled := False\<rparr>) \<and>
   handleESEvent_AVC (fresh_controller\<lparr>microphoneEnabled := False\<rparr>)
     (auth_open_message 500 ''/dev/audio1'') = [ES_AUTH_RESULT_DENY] \<and>
   snd (handleESEvent_PM no_such_process 7 (fresh_controller\<lparr>microphoneEnabled := False\<rparr>)
     (auth_open_message 500 ''/dev/audio1'')) = [ES_AUTH_RESULT_ALLOW]"
proof -
  have h1: "\<not> microphoneEnabled (fresh_controller\<lparr>microphoneEnabled := False\<rparr>)"
    by simp
  have h2: "database (fresh_controller\<lparr>microphoneEnabled := False\<rparr>) = Some empty_database"
    and h3: "\<not> databaseMutex (fresh_controller\<lparr>microphoneEnabled := False\<rparr>)"
    by (simp_all add: fresh_controller_def AudioVideoController_ctor_def)
  show ?thesis
    using C3_audio_open_microphone_disabled [OF h1 h2 h3, of no_such_process 7] h1 h2 h3
    by auto
qed

subsection \<open>The recent-access buffer\<close>

lemma handleFileOpen_null: "open_file_path m = None \<Longrightarrow> handleFileOpen now c m = Returns c"
  by (simp add: handleFileOpen_def)

lemma handleFileOpen_buffer:
  assumes "open_file_path m = Some path" and "\<not> databaseMutex c"
  shows "\<exists>access c'. handleFileOpen now c m = Returns c' \<and> \<not> databaseMutex c' \<and>
           filePath access = path \<and> fa_pid access = process_pid m \<and>
           fa_timestamp access = now \<and>
           recentFileAccess c' =
             (if length (recentFileAccess c) \<ge> 10000
              then drop 1000 (recentFileAccess c @ [access])
              else recentFileAccess c @ [access])"
  using assms
  by (cases c) (auto simp: handleFileOpen_def logFileAccess_free Let_def split: option.splits)

lemma handleFileOpen_bounded:
  assumes "length (recentFileAccess c) \<le> 10000"
  shows "length (recentFileAccess (controller_after (handleFileOpen now c m))) \<le> 10000"
proof (cases "open_file_path m")
  case None
  then show ?thesis using assms by (simp add: handleFileOpen_null)
next
  case (Some path)
  show ?thesis
  proof (cases "databaseMutex c")
    case True
    then show ?thesis using assms Some by (simp add: handleFileOpen_locked)
  next
    case False
    from handleFileOpen_buffer [OF Some False, of now] obtain access c' where
      "handleFileOpen now c m = Returns c'"
      "recentFileAccess c' =
         (if length (recentFileAccess c) \<ge> 10000
          then drop 1000 (recentFileAccess c @ [access])
          else recentFileAccess c @ [access])"
      by blast
    then show ?thesis using assms by (simp split: if_splits)
  qed
qed

lemma file_opens_bounded:
  "length (recentFileAccess c) \<le> 10000 \<Longrightarrow>
   length (recentFileAccess (controller_after (file_opens c evs))) \<le> 10000"
proof (induction evs arbitrary: c)
  case Nil
  then show ?case by simp
next
  case (Cons ev evs)
  obtain now m where ev: "ev = (now, m)" by (cases ev)
  have b: "length (recentFileAccess (controller_after (handleFileOpen now c m))) \<le> 10000"
    using Cons.prems by (rule handleFileOpen_bounded)
  show ?case
  proof (cases "handleFileOpen now c m")
    case (Returns c')
    then show ?thesis using b Cons.IH [of c'] by (simp add: ev)
  next
    case (Waits c')
    then show ?thesis using b by (simp add: ev)
  qed
qed

lemma file_opens_returns:
  "\<not> databaseMutex c \<Longrightarrow> \<exists>c'. file_opens c evs = Returns c' \<and> \<not> databaseMutex c'"
proof (induction evs arbitrary: c)
  case Nil
  then show ?case by simp
next
  case (Cons ev evs)
  obtain now m where ev: "ev = (now, m)" by (cases ev)
  from handleFileOpen_free [OF Cons.prems, of now m] obtain c1 where
    c1: "handleFileOpen now c m = Returns c1" "\<not> databaseMutex c1"
    by blast
  show ?case
    using Cons.IH [OF c1(2)] c1(1) by (simp add: ev)
qed

lemma open_events_route:
  "event_type m = ES_EVENT_TYPE_AUTH_OPEN \<or> event_type m = ES_EVENT_TYPE_NOTIFY_OPEN \<Longrightarrow>
   route_PM env now c m = handleFileOpen now c m"
  by (auto simp: route_PM_def)

text \<open>
  C4. Starting from a buffer of at most 10000 entries (the constructor's is empty),
  the buffer holds at most 10000 entries after any run of file-open events, and with
  the database mutex free every handler of the run returns. An open with a path on a
  buffer of exactly 10000 entries appends the new record and drops the first 1000
  entries of the result, leaving the last 9000 old entries and the new one in their
  order; on a smaller buffer it only appends. The dispatcher of ProcessMonitoring.cpp
  routes both kinds of open event to this handler.
\<close>

theorem C4_recent_buffer_bounded:
  assumes "length (recentFileAccess c) \<le> 10000"
  shows "length (recentFileAccess (controller_after (file_opens c evs))) \<le> 10000 \<and>
         length (recentFileAccess (controller_after (file_opens AudioVideoController_ctor evs)))
           \<le> 10000 \<and>
         (\<not> databaseMutex c \<longrightarrow> (\<exists>c'. file_opens c evs = Returns c')) \<and>
         (open_file_path m = Some path \<and> \<not> databaseMutex c \<longrightarrow>
            (\<exists>access c'. handleFileOpen now c m = Returns c' \<and> filePath access = path \<and>
               recentFileAccess c' =
                 (if length (recentFileAccess c) = 10000
                  then drop 1000 (recentFileAccess c) @ [access]
                  else recentFileAccess c @ [access]))) \<and>
         (event_type m = ES_EVENT_TYPE_AUTH_OPEN \<or> event_type m = ES_EVENT_TYPE_NOTIFY_OPEN \<longrightarrow>
            route_PM env now c m = handleFileOpen now c m)"
proof -
  have a: "length (recentFileAccess (controller_after (file_opens c evs))) \<le> 10000"
    using assms by (rule file_opens_bounded)
  have b: "length (recentFileAccess (controller_after (file_opens AudioVideoController_ctor evs)))
             \<le> 10000"
    by (rule file_opens_bounded) (simp add: AudioVideoController_ctor_def)
  have r: "\<exists>c'. file_opens c evs = Returns c'" if "\<not> databaseMutex c"
    using file_opens_returns [OF that, of evs] by blast
  have s: "\<exists>access c'. handleFileOpen now c m = Returns c' \<and> filePath access = path \<and>
               recentFileAccess c' =
                 (if length (recentFileAccess c) = 10000
                  then drop 1000 (recentFileAccess c) @ [access]
                  else recentFileAccess c @ [access])"
    if "open_file_path m = Some path" "\<not> databaseMutex c"
    using handleFileOpen_buffer [OF that, of now] assms by auto
  show ?thesis using a b r s open_events_route [of m env now c] by blast
qed

theorem C4_recent_buffer_bounded_witness:
  "length (recentFileAccess (fresh_controller\<lparr>recentFileAccess :=
       replicate 10000 \<lparr> fa_pid = 1, filePath = ''/tmp/a'', accessType = ''OPEN'',
                          fa_timestamp = 5, wasBlocked = False, reason = [] \<rparr>\<rparr>)) \<le> 10000 \<and>
   open_file_path (auth_open_message 500 ''/tmp/b'') = Some ''/tmp/b'' \<and>
   \<not> databaseMutex (fresh_controller\<lparr>recentFileAccess :=
       replicate 10000 \<lparr> fa_pid = 1, filePath = ''/tmp/a'', accessType = ''OPEN'',
                          fa_timestamp = 5, wasBlocked = False, reason = [] \<rparr>\<rparr>) \<and>
   (\<exists>c'. handleFileOpen 7 (fresh_controller\<lparr>recentFileAccess :=
       replicate 10000 \<lparr> fa_pid = 1, filePath = ''/tmp/a'', accessType = ''OPEN'',
                          fa_timestamp = 5, wasBlocked = False, reason = [] \<rparr>\<rparr>)
     (auth_open_message 500 ''/tmp/b'') = Returns c' \<and> length (recentFileAccess c') = 9001) \<and>
   length (recentFileAccess (controller_after (file_opens (fresh_controller\<lparr>recentFileAccess :=
       replicate 10000 \<lparr> fa_pid = 1, filePath = ''/tmp/a'', accessType = ''OPEN'',
                          fa_timestamp = 5, wasBlocked = False, reason = [] \<rparr>\<rparr>)
     [(7, auth_open_message 500 ''/tmp/b''), (8, auth_open_message 500 ''/tmp/b'')]))) \<le> 10000"
proof -
  let ?c = "fresh_controller\<lparr>recentFileAccess :=
       replicate 10000 \<lparr> fa_pid = 1, filePath = ''/tmp/a'', accessType = ''OPEN'',
                          fa_timestamp = 5, wasBlocked = False, reason = [] \<rparr>\<rparr>"
  have h: "length (recentFileAccess ?c) \<le> 10000" by simp
  have p: "open_file_path (auth_open_message 500 ''/tmp/b'') = Some ''/tmp/b''"
    by (simp add: auth_open_message_def)
  have f: "\<not> databaseMutex ?c"
    by (simp add: fresh_controller_def AudioVideoController_ctor_def)
  let ?evs = "[(7, auth_open_message 500 ''/tmp/b''), (8, auth_open_message 500 ''/tmp/b'')]"
  note bounded = C4_recent_buffer_bounded
    [OF h, of ?evs "auth_open_message 500 ''/tmp/b''" "''/tmp/b''" 7]
  have a: "length (recentFileAccess (controller_after (file_opens ?c ?evs))) \<le> 10000"
    using bounded by blast
  obtain access c' where c': "handleFileOpen 7 ?c (auth_open_message 500 ''/tmp/b'') = Returns c'"
    and r: "recentFileAccess c' =
              (if length (recentFileAccess ?c) = 10000
               then drop 1000 (recentFileAccess ?c) @ [access]
               else recentFileAccess ?c @ [access])"
    using bounded p f by blast
  have l: "length (recentFileAccess c') = 9001"
    unfolding r by simp
  show ?thesis
    using a h p f c' l by blast
qed

subsection \<open>Policy mutators\<close>

text \<open>
  C5, as amended. Enabling twice in a row leaves the flag true after each call and
  the second call changes nothing; enabling the camera when it is enabled leaves the
  controller as it was. Each call returns whether its own enumeration of the device
  services succeeded.
\<close>

theorem C5_enable_twice:
  "microphoneEnabled (fst (enableMicrophone r1 c)) \<and>
   fst (enableMicrophone r2 (fst (enableMicrophone r1 c))) = fst (enableMicrophone r1 c) \<and>
   snd (enableMicrophone r1 c) = (r1 = KERN_SUCCESS) \<and>
   snd (enableMicrophone r2 (fst (enableMicrophone r1 c))) = (r2 = KERN_SUCCESS) \<and>
   cameraEnabled (fst (enableCamera r1 c)) \<and>
   fst (enableCamera r2 (fst (enableCamera r1 c))) = fst (enableCamera r1 c) \<and>
   snd (enableCamera r1 c) = (r1 = KERN_SUCCESS) \<and>
   snd (enableCamera r2 (fst (enableCamera r1 c))) = (r2 = KERN_SUCCESS) \<and>
   (cameraEnabled c \<longrightarrow> fst (enableCamera r1 c) = c)"
  by (simp add: enableMicrophone_def enableCamera_def controlAudioDevices_def
      controlVideoDevices_def)

theorem C5_enable_twice_witness:
  "cameraEnabled fresh_controller \<and>
   fst (enableCamera 0 fresh_controller) = fresh_controller \<and>
   snd (enableCamera 0 fresh_controller) \<and>
   snd (enableMicrophone 0 (fst (enableMicrophone 0 fresh_controller)))"
proof -
  have h: "cameraEnabled fresh_controller"
    by (simp add: fresh_controller_def AudioVideoController_ctor_def)
  show ?thesis
    using C5_enable_twice [of 0 fresh_controller 0] h
    by (simp add: KERN_SUCCESS_def)
qed

text \<open>
  C5 as stated fails when the enumeration of the audio services fails on the second
  call (\<open>KERN_FAILURE\<close> is 5): the flag stays true and the call reports failure.
\<close>

theorem C5_second_call_fails_counterexample:
  "snd (enableMicrophone 0 fresh_controller) \<and>
   microphoneEnabled (fst (enableMicrophone 5 (fst (enableMicrophone 0 fresh_controller)))) \<and>
   \<not> snd (enableMicrophone 5 (fst (enableMicrophone 0 fresh_controller)))"
  by (simp add: enableMicrophone_def controlAudioDevices_def KERN_SUCCESS_def)

subsection \<open>Registry lookup\<close>

text \<open>
  C6. \<open>getProcessInfo\<close> returns the snapshot stored under the process id when there
  is one and the result of \<open>analyzeProcess\<close> otherwise; it has no failure branch and
  does not touch the database. When \<open>handleProcessExit\<close> returns, the process id of
  the event is no longer in the map, and a lookup of it is a fresh \<open>analyzeProcess\<close>.
  The handler returns when the database mutex is free and the stored snapshot has no
  open file.
\<close>

theorem C6_lookup_cached_or_fresh:
  "(runningProcesses c p = Some info \<longrightarrow> getProcessInfo env c p = info) \<and>
   (runningProcesses c p = None \<longrightarrow> getProcessInfo env c p = analyzeProcess env p) \<and>
   (handleProcessExit c m = Returns c' \<longrightarrow>
      runningProcesses c' (process_pid m) = None \<and>
      getProcessInfo env c' (process_pid m) = analyzeProcess env (process_pid m)) \<and>
   (runningProcesses c (process_pid m) = Some info \<and> openFiles info = [] \<and>
    \<not> databaseMutex c \<longrightarrow>
      (\<exists>c'. handleProcessExit c m = Returns c'))"
proof -
  have gone: "runningProcesses c' (process_pid m) = None" if "handleProcessExit c m = Returns c'"
  proof (cases "runningProcesses c (process_pid m)")
    case None
    then show ?thesis using that by (simp add: handleProcessExit_def)
  next
    case (Some processInfo)
    then show ?thesis using that
      by (auto simp: handleProcessExit_def split: call.splits)
  qed
  have returns: "\<exists>c'. handleProcessExit c m = Returns c'"
    if "runningProcesses c (process_pid m) = Some info" "openFiles info = []"
      "\<not> databaseMutex c"
    using logProcessEvent_returns [of c info "''EXIT''"] that
    by (auto simp: handleProcessExit_def)
  show ?thesis
    using gone returns by (simp add: getProcessInfo_def)
qed

theorem C6_lookup_cached_or_fresh_witness:
  "runningProcesses (fresh_controller\<lparr>runningProcesses := [500 \<mapsto> zero_ProcessInfo\<lparr>pid := 500\<rparr>]\<rparr>) 500
     = Some (zero_ProcessInfo\<lparr>pid := 500\<rparr>) \<and>
   getProcessInfo no_such_process
     (fresh_controller\<lparr>runningProcesses := [500 \<mapsto> zero_ProcessInfo\<lparr>pid := 500\<rparr>]\<rparr>) 500
     = zero_ProcessInfo\<lparr>pid := 500\<rparr> \<and>
   (\<exists>c'. handleProcessExit
            (fresh_controller\<lparr>runningProcesses := [500 \<mapsto> zero_ProcessInfo\<lparr>pid := 500\<rparr>]\<rparr>)
            (empty_message\<lparr>event_type := ES_EVENT_TYPE_NOTIFY_EXIT, process_pid := 500\<rparr>)
          = Returns c' \<and>
        getProcessInfo no_such_process c' 500 = analyzeProcess no_such_process 500)"
proof -
  let ?c = "fresh_controller\<lparr>runningProcesses := [500 \<mapsto> zero_ProcessInfo\<lparr>pid := 500\<rparr>]\<rparr>"
  let ?m = "empty_message\<lparr>event_type := ES_EVENT_TYPE_NOTIFY_EXIT, process_pid := 500\<rparr>"
  have r: "runningProcesses ?c 500 = Some (zero_ProcessInfo\<lparr>pid := 500\<rparr>)"
    by simp
  have p: "process_pid ?m = 500"
    by (simp add: empty_message_def)
  have o: "openFiles (zero_ProcessInfo\<lparr>pid := 500\<rparr>) = []"
    by (simp add: zero_ProcessInfo_def)
  have f: "\<not> databaseMutex ?c"
    by (simp add: fresh_controller_def AudioVideoController_ctor_def)
  obtain c' where c': "handleProcessExit ?c ?m = Returns c'"
    using C6_lookup_cached_or_fresh [of ?c 500 "zero_ProcessInfo\<lparr>pid := 500\<rparr>" no_such_process ?m]
      r p o f by auto
  show ?thesis
    using C6_lookup_cached_or_fresh [of ?c 500 "zero_ProcessInfo\<lparr>pid := 500\<rparr>" no_such_process ?m c']
      r p c' by simp
qed

subsection \<open>History readers\<close>

lemma sint_small:
  assumes "(w :: 64 word) < 2 ^ 63"
  shows "sint w = uint w"
proof -
  have hi: "uint w < 2 ^ 63"
    using assms by (simp add: word_less_alt)
  have lo: "- (2 ^ 63) \<le> uint w"
    by (rule order_trans [of _ 0]) simp_all
  have "signed_take_bit 63 (uint w) = uint w"
    using lo hi by (rule signed_take_bit_int_eq_self)
  then show ?thesis
    by (simp add: sint_uint)
qed

lemma sint_small_le: "(a :: 64 word) < 2 ^ 63 \<Longrightarrow> b < 2 ^ 63 \<Longrightarrow> sint a \<le> sint b \<longleftrightarrow> a \<le> b"
  by (simp add: sint_small word_le_def)

lemma obtl_length:
  "length (order_by_timestamp_desc_limit n ts rows) = min n (length rows)"
  by (simp add: order_by_timestamp_desc_limit_def min.commute)

lemma obtl_sorted:
  "sorted_wrt (\<lambda>a b. sint (ts b) \<le> sint (ts a)) (order_by_timestamp_desc_limit n ts rows)"
proof -
  let ?k = "\<lambda>r. - sint (ts r)"
  have "sorted (map ?k (sort_key ?k rows))"
    by (rule sorted_sort_key)
  then have "sorted_wrt (\<lambda>a b. ?k a \<le> ?k b) (sort_key ?k rows)"
    by (simp add: sorted_map)
  then have "sorted_wrt (\<lambda>a b. sint (ts b) \<le> sint (ts a)) (sort_key ?k rows)"
    by simp
  then show ?thesis
    unfolding order_by_timestamp_desc_limit_def by (rule sorted_wrt_take)
qed

lemma obtl_mset:
  "mset (order_by_timestamp_desc_limit n ts rows) \<subseteq># mset rows"
proof -
  let ?s = "sort_key (\<lambda>r. - sint (ts r)) rows"
  have "mset (take n ?s) \<subseteq># mset (take n ?s) + mset (drop n ?s)"
    by simp
  also have "mset (take n ?s) + mset (drop n ?s) = mset ?s"
    by (simp flip: mset_append)
  finally show ?thesis
    by (simp add: order_by_timestamp_desc_limit_def)
qed

lemma obtl_rest:
  assumes "x \<in># mset rows - mset (order_by_timestamp_desc_limit n ts rows)"
    and "y \<in> set (order_by_timestamp_desc_limit n ts rows)"
  shows "sint (ts x) \<le> sint (ts y)"
proof -
  let ?k = "\<lambda>r. - sint (ts r)"
  let ?s = "sort_key ?k rows"
  have split: "?s = take n ?s @ drop n ?s"
    by simp
  have "mset rows = mset (take n ?s) + mset (drop n ?s)"
    by (simp flip: mset_append)
  then have "mset rows - mset (take n ?s) = mset (drop n ?s)"
    by simp
  then have x: "x \<in> set (drop n ?s)"
    using assms(1) by (simp add: order_by_timestamp_desc_limit_def)
  have y: "y \<in> set (take n ?s)"
    using assms(2) by (simp add: order_by_timestamp_desc_limit_def)
  have "sorted (map ?k ?s)"
    by (rule sorted_sort_key)
  then have "sorted_wrt (\<lambda>a b. ?k a \<le> ?k b) (take n ?s @ drop n ?s)"
    by (simp add: sorted_map)
  then have "?k y \<le> ?k x"
    using x y unfolding sorted_wrt_append by blast
  then show ?thesis by simp
qed

lemma obtl_unsigned:
  assumes "\<forall>r \<in> set rows. ts r < 2 ^ 63"
  shows "sorted_wrt (\<lambda>a b. ts b \<le> ts a) (order_by_timestamp_desc_limit n ts rows)"
proof -
  have sub: "set (order_by_timestamp_desc_limit n ts rows) \<subseteq> set rows"
    using obtl_mset [of n ts rows] by (metis mset_subset_eqD set_mset_mset subsetI)
  have "sorted_wrt (\<lambda>a b. sint (ts b) \<le> sint (ts a)) (order_by_timestamp_desc_limit n ts rows)"
    by (rule obtl_sorted)
  then show ?thesis
  proof (rule sorted_wrt_mono_rel [rotated])
    fix a b
    assume "a \<in> set (order_by_timestamp_desc_limit n ts rows)"
      and "b \<in> set (order_by_timestamp_desc_limit n ts rows)"
      and "sint (ts b) \<le> sint (ts a)"
    then show "ts b \<le> ts a"
      using assms sub by (simp add: sint_small_le subset_iff)
  qed
qed

text \<open>
  C7. With a usable handle and the database mutex free, \<open>getFileAccessHistory\<close>
  returns at most 5000 and \<open>getNetworkConnections\<close> at most 1000 rows of their
  tables (all of them when the table is no larger), in non-increasing order of the
  stored timestamp, and no row left out is newer than a row returned. The stored
  timestamp is the signed reading of the 64 bits; for timestamps below \<open>2 ^ 63\<close>
  that is the order of the \<open>uint64_t\<close> values themselves.
\<close>

theorem C7_history_readers_newest_first:
  assumes "database c = Some db" and "\<not> databaseMutex c"
  shows "(\<exists>rows. getFileAccessHistory c = Some rows \<and>
            length rows = min 5000 (length (file_access db)) \<and>
            sorted_wrt (\<lambda>a b. sint (fa_timestamp b) \<le> sint (fa_timestamp a)) rows \<and>
            mset rows \<subseteq># mset (file_access db) \<and>
            (\<forall>x \<in># mset (file_access db) - mset rows.
               \<forall>y \<in> set rows. sint (fa_timestamp x) \<le> sint (fa_timestamp y)) \<and>
            ((\<forall>r \<in> set (file_access db). fa_timestamp r < 2 ^ 63) \<longrightarrow>
               sorted_wrt (\<lambda>a b. fa_timestamp b \<le> fa_timestamp a) rows)) \<and>
         (\<exists>conns. getNetworkConnections c = Some conns \<and>
            length conns = min 1000 (length (network_connections db)) \<and>
            sorted_wrt (\<lambda>a b. sint (nc_timestamp b) \<le> sint (nc_timestamp a)) conns \<and>
            mset conns \<subseteq># mset (network_connections db) \<and>
            (\<forall>x \<in># mset (network_connections db) - mset conns.
               \<forall>y \<in> set conns. sint (nc_timestamp x) \<le> sint (nc_timestamp y)) \<and>
            ((\<forall>r \<in> set (network_connections db). nc_timestamp r < 2 ^ 63) \<longrightarrow>
               sorted_wrt (\<lambda>a b. nc_timestamp b \<le> nc_timestamp a) conns))"
proof -
  have f: "getFileAccessHistory c
             = Some (order_by_timestamp_desc_limit 5000 fa_timestamp (file_access db))"
    and n: "getNetworkConnections c
             = Some (order_by_timestamp_desc_limit 1000 nc_timestamp (network_connections db))"
    using assms by (simp_all add: getFileAccessHistory_def getNetworkConnections_def)
  show ?thesis
    unfolding f n
    using obtl_rest [of _ "file_access db" 5000 fa_timestamp]
      obtl_rest [of _ "network_connections db" 1000 nc_timestamp]
    by (simp add: obtl_length obtl_sorted obtl_mset obtl_unsigned)
qed

theorem C7_history_readers_newest_first_witness:
  "database (fresh_controller\<lparr>database := Some (empty_database\<lparr>file_access :=
       [sample_access 10, sample_access 30, sample_access 20]\<rparr>)\<rparr>)
     = Some (empty_database\<lparr>file_access :=
       [sample_access 10, sample_access 30, sample_access 20]\<rparr>) \<and>
   \<not> databaseMutex (fresh_controller\<lparr>database := Some (empty_database\<lparr>file_access :=
       [sample_access 10, sample_access 30, sample_access 20]\<rparr>)\<rparr>) \<and>
   getFileAccessHistory (fresh_controller\<lparr>database := Some (empty_database\<lparr>file_access :=
       [sample_access 10, sample_access 30, sample_access 20]\<rparr>)\<rparr>)
     = Some [sample_access 30, sample_access 20, sample_access 10] \<and>
   getNetworkConnections (fresh_controller\<lparr>database := Some (empty_database\<lparr>file_access :=
       [sample_access 10, sample_access 30, sample_access 20]\<rparr>)\<rparr>) = Some []"
proof -
  let ?db = "empty_database\<lparr>file_access :=
       [sample_access 10, sample_access 30, sample_access 20]\<rparr>"
  let ?c = "fresh_controller\<lparr>database := Some ?db\<rparr>"
  have h: "database ?c = Some ?db"
    by simp
  have m: "\<not> databaseMutex ?c"
    by (simp add: fresh_controller_def AudioVideoController_ctor_def)
  have e: "getFileAccessHistory ?c = Some [sample_access 30, sample_access 20, sample_access 10]"
    using m
    by (simp add: getFileAccessHistory_def order_by_timestamp_desc_limit_def sample_access_def)
  show ?thesis
    using C7_history_readers_newest_first [OF h m] h m e
    by (auto simp: empty_database_def)
qed

subsection \<open>Capability classification\<close>

lemma analyze_library_flags:
  "hasAudioAccess (analyze_library lib info) =
     (hasAudioAccess info \<or> (\<exists>frag \<in> set audio_frameworks. sublist frag lib))"
  "hasVideoAccess (analyze_library lib info) =
     (hasVideoAccess info \<or> (\<exists>frag \<in> set video_frameworks. sublist frag lib))"
  "hasNetworkAccess (analyze_library lib info) =
     (hasNetworkAccess info \<or> (\<exists>frag \<in> set network_frameworks. sublist frag lib))"
  unfolding analyze_library_def Let_def str_find_sublist
    audio_frameworks_def video_frameworks_def network_frameworks_def
  by auto

lemma fold_analyze_library_audio:
  "hasAudioAccess (fold analyze_library libs info) =
     (hasAudioAccess info \<or> (\<exists>lib \<in> set libs. \<exists>frag \<in> set audio_frameworks. sublist frag lib))"
  by (induction libs arbitrary: info) (auto simp: analyze_library_flags)

lemma fold_analyze_library_video:
  "hasVideoAccess (fold analyze_library libs info) =
     (hasVideoAccess info \<or> (\<exists>lib \<in> set libs. \<exists>frag \<in> set video_frameworks. sublist frag lib))"
  by (induction libs arbitrary: info) (auto simp: analyze_library_flags)

lemma fold_analyze_library_network:
  "hasNetworkAccess (fold analyze_library libs info) =
     (hasNetworkAccess info \<or> (\<exists>lib \<in> set libs. \<exists>frag \<in> set network_frameworks. sublist frag lib))"
  by (induction libs arbitrary: info) (auto simp: analyze_library_flags)

lemma analyze_library_libraries:
  "loadedLibraries (fold analyze_library libs info) = loadedLibraries info"
  by (induction libs arbitrary: info) (auto simp: analyze_library_def Let_def)

text \<open>
  C8. The snapshot that \<open>handleProcessExec\<close> builds has \<open>hasAudioAccess\<close> exactly
  when some loaded library path contains AVFoundation, CoreAudio or AudioUnit,
  \<open>hasVideoAccess\<close> exactly when one contains AVCapture or CoreMediaIO, and
  \<open>hasNetworkAccess\<close> exactly when one contains Network or CFNetwork. So a process
  with /usr/lib/libAVFoundation.dylib among its libraries has \<open>hasAudioAccess\<close>. The
  handler stores that snapshot under the process id before it logs, so it is the one
  in the map whether the handler then returns or waits.
\<close>

theorem C8_capability_classification:
  "(hasAudioAccess (exec_snapshot env now m) \<longleftrightarrow>
      (\<exists>lib \<in> set (getProcessLoadedLibraries env (process_pid m)).
         \<exists>frag \<in> set audio_frameworks. sublist frag lib)) \<and>
   (hasVideoAccess (exec_snapshot env now m) \<longleftrightarrow>
      (\<exists>lib \<in> set (getProcessLoadedLibraries env (process_pid m)).
         \<exists>frag \<in> set video_frameworks. sublist frag lib)) \<and>
   (hasNetworkAccess (exec_snapshot env now m) \<longleftrightarrow>
      (\<exists>lib \<in> set (getProcessLoadedLibraries env (process_pid m)).
         \<exists>frag \<in> set network_frameworks. sublist frag lib)) \<and>
   loadedLibraries (exec_snapshot env now m) = getProcessLoadedLibraries env (process_pid m) \<and>
   (''/usr/lib/libAVFoundation.dylib'' \<in> set (getProcessLoadedLibraries env (process_pid m)) \<longrightarrow>
      hasAudioAccess (exec_snapshot env now m)) \<and>
   runningProcesses (controller_after (handleProcessExec env now c m)) (process_pid m)
     = Some (exec_snapshot env now m)"
proof -
  have a: "hasAudioAccess (exec_snapshot env now m) \<longleftrightarrow>
      (\<exists>lib \<in> set (getProcessLoadedLibraries env (process_pid m)).
         \<exists>frag \<in> set audio_frameworks. sublist frag lib)"
    by (simp add: exec_snapshot_def Let_def fold_analyze_library_audio)
  have v: "hasVideoAccess (exec_snapshot env now m) \<longleftrightarrow>
      (\<exists>lib \<in> set (getProcessLoadedLibraries env (process_pid m)).
         \<exists>frag \<in> set video_frameworks. sublist frag lib)"
    by (simp add: exec_snapshot_def Let_def fold_analyze_library_video)
  have n: "hasNetworkAccess (exec_snapshot env now m) \<longleftrightarrow>
      (\<exists>lib \<in> set (getProcessLoadedLibraries env (process_pid m)).
         \<exists>frag \<in> set network_frameworks. sublist frag lib)"
    by (simp add: exec_snapshot_def Let_def fold_analyze_library_network)
  have l: "loadedLibraries (exec_snapshot env now m)
             = getProcessLoadedLibraries env (process_pid m)"
    by (simp add: exec_snapshot_def Let_def analyze_library_libraries)
  have av: "\<exists>frag \<in> set audio_frameworks. sublist frag ''/usr/lib/libAVFoundation.dylib''"
    by (simp add: audio_frameworks_def str_find_sublist [symmetric])
  have s: "hasAudioAccess (exec_snapshot env now m)"
    if "''/usr/lib/libAVFoundation.dylib'' \<in> set (getProcessLoadedLibraries env (process_pid m))"
    unfolding a using that av by blast
  have r: "runningProcesses (controller_after (handleProcessExec env now c m)) (process_pid m)
             = Some (exec_snapshot env now m)"
    by (simp add: handleProcessExec_def Let_def logProcessEvent_after)
  show ?thesis
    using a v n l s r by blast
qed

theorem C8_capability_classification_witness:
  "''/usr/lib/libAVFoundation.dylib'' \<in> set (getProcessLoadedLibraries
      (no_such_process\<lparr>getProcessLoadedLibraries :=
          (\<lambda>p. [''/usr/lib/libSystem.B.dylib'', ''/usr/lib/libAVFoundation.dylib''])\<rparr>)
      (process_pid (empty_message\<lparr>event_type := ES_EVENT_TYPE_NOTIFY_EXEC, process_pid := 500\<rparr>))) \<and>
   hasAudioAccess (exec_snapshot
      (no_such_process\<lparr>getProcessLoadedLibraries :=
          (\<lambda>p. [''/usr/lib/libSystem.B.dylib'', ''/usr/lib/libAVFoundation.dylib''])\<rparr>) 7
      (empty_message\<lparr>event_type := ES_EVENT_TYPE_NOTIFY_EXEC, process_pid := 500\<rparr>)) \<and>
   \<not> hasVideoAccess (exec_snapshot
      (no_such_process\<lparr>getProcessLoadedLibraries :=
          (\<lambda>p. [''/usr/lib/libSystem.B.dylib'', ''/usr/lib/libAVFoundation.dylib''])\<rparr>) 7
      (empty_message\<lparr>event_type := ES_EVENT_TYPE_NOTIFY_EXEC, process_pid := 500\<rparr>)) \<and>
   \<not> hasAudioAccess (exec_snapshot no_such_process 7
      (empty_message\<lparr>event_type := ES_EVENT_TYPE_NOTIFY_EXEC, process_pid := 500\<rparr>))"
proof -
  let ?env = "no_such_process\<lparr>getProcessLoadedLibraries :=
          (\<lambda>p. [''/usr/lib/libSystem.B.dylib'', ''/usr/lib/libAVFoundation.dylib''])\<rparr>"
  let ?m = "empty_message\<lparr>event_type := ES_EVENT_TYPE_NOTIFY_EXEC, process_pid := 500\<rparr>"
  have h: "''/usr/lib/libAVFoundation.dylib'' \<in> set (getProcessLoadedLibraries ?env (process_pid ?m))"
    by simp
  have nv: "\<not> (\<exists>lib \<in> set (getProcessLoadedLibraries ?env (process_pid ?m)).
         \<exists>frag \<in> set video_frameworks. sublist frag lib)"
    by (simp add: video_frameworks_def str_find_sublist [symmetric])
  have na: "\<not> (\<exists>lib \<in> set (getProcessLoadedLibraries no_such_process (process_pid ?m)).
         \<exists>frag \<in> set audio_frameworks. sublist frag lib)"
    by (simp add: no_such_process_def)
  show ?thesis
    using C8_capability_classification [of ?env 7 ?m] C8_capability_classification [of no_such_process 7 ?m]
      h nv na
    by blast
qed

subsection \<open>Initial posture\<close>

text \<open>
  C9. The constructor leaves both flags true, and with them the dispatcher of
  AudioVideoController.cpp answers every authorization open event with ALLOW, whatever
  the path.
\<close>

theorem C9_initial_posture_allow:
  "microphoneEnabled AudioVideoController_ctor \<and> cameraEnabled AudioVideoController_ctor \<and>
   (event_type m = ES_EVENT_TYPE_AUTH_OPEN \<longrightarrow>
      handleESEvent_AVC AudioVideoController_ctor m = [ES_AUTH_RESULT_ALLOW])"
  by (simp add: AudioVideoController_ctor_def handleESEvent_AVC_def isMicrophoneEnabled_def
      isCameraEnabled_def split: option.splits)

theorem C9_initial_posture_allow_witness:
  "event_type (auth_open_message 500 ''/dev/audio1'') = ES_EVENT_TYPE_AUTH_OPEN \<and>
   handleESEvent_AVC AudioVideoController_ctor (auth_open_message 500 ''/dev/audio1'')
     = [ES_AUTH_RESULT_ALLOW] \<and>
   handleESEvent_AVC AudioVideoController_ctor (auth_open_message 500 ''/dev/video0'')
     = [ES_AUTH_RESULT_ALLOW]"
  using C9_initial_posture_allow [of "auth_open_message 500 ''/dev/audio1''"]
    C9_initial_posture_allow [of "auth_open_message 500 ''/dev/video0''"]
  by (simp add: auth_open_message_def)

subsection \<open>Blocked records\<close>

lemma logFileAccess_after:
  "file_rows (controller_after (logFileAccess access c)) =
     (if databaseMutex c \<or> database c = None then file_rows c else file_rows c @ [access])"
  by (simp add: logFileAccess_def Let_def file_rows_def split: option.splits)

lemma handleFileWrite_unblocked:
  "\<exists>new. file_rows (controller_after (handleFileWrite now c m)) = file_rows c @ new \<and>
          (\<forall>r \<in> set new. \<not> wasBlocked r \<and> reason r = [])"
  by (cases "write_target_path m") (simp_all add: handleFileWrite_def logFileAccess_after)

lemma handleFileDelete_unblocked:
  "\<exists>new. file_rows (controller_after (handleFileDelete now c m)) = file_rows c @ new \<and>
          (\<forall>r \<in> set new. \<not> wasBlocked r \<and> reason r = [])"
  by (cases "unlink_target_path m") (simp_all add: handleFileDelete_def logFileAccess_after)

lemma file_rows_runningProcesses: "file_rows (c\<lparr>runningProcesses := r\<rparr>) = file_rows c"
  by (simp add: file_rows_def)

lemma handleProcessExec_file_rows:
  "file_rows (controller_after (handleProcessExec env now c m)) = file_rows c"
  by (simp add: handleProcessExec_def Let_def logProcessEvent_after file_rows_runningProcesses)

lemma handleProcessExit_file_rows:
  "file_rows (controller_after (handleProcessExit c m)) = file_rows c"
proof (cases "runningProcesses c (process_pid m)")
  case None
  then show ?thesis by (simp add: handleProcessExit_def)
next
  case (Some processInfo)
  have l: "file_rows (controller_after (logProcessEvent processInfo ''EXIT'' c)) = file_rows c"
    by (rule logProcessEvent_after)
  show ?thesis
  proof (cases "logProcessEvent processInfo ''EXIT'' c")
    case (Returns c1)
    then show ?thesis
      using Some l by (simp add: handleProcessExit_def file_rows_runningProcesses)
  next
    case (Waits c1)
    then show ?thesis
      using Some l by (simp add: handleProcessExit_def)
  qed
qed

lemma route_PM_unblocked:
  assumes "event_type m \<noteq> ES_EVENT_TYPE_AUTH_OPEN" "event_type m \<noteq> ES_EVENT_TYPE_NOTIFY_OPEN"
  shows "\<exists>new. file_rows (controller_after (route_PM env now c m)) = file_rows c @ new \<and>
          (\<forall>r \<in> set new. \<not> wasBlocked r \<and> reason r = [])"
proof -
  consider
      (Exec) "route_PM env now c m = handleProcessExec env now c m"
    | (Exit) "route_PM env now c m = handleProcessExit c m"
    | (Write) "route_PM env now c m = handleFileWrite now c m"
    | (Unlink) "route_PM env now c m = handleFileDelete now c m"
    | (Syscall) "\<exists>syscall args. route_PM env now c m
                   = logSystemCall now (process_pid m) syscall args c"
    | (Other) "route_PM env now c m = Returns c"
    using assms
    by (cases "event_type m")
       (auto simp: route_PM_def handleFork_def handleMmap_def handleSignal_def
          handleSetuid_def)
  then show ?thesis
  proof cases
    case Exec
    then show ?thesis by (simp add: handleProcessExec_file_rows)
  next
    case Exit
    then show ?thesis by (simp add: handleProcessExit_file_rows)
  next
    case Write
    then show ?thesis by (simp add: handleFileWrite_unblocked)
  next
    case Unlink
    then show ?thesis by (simp add: handleFileDelete_unblocked)
  next
    case Syscall
    then show ?thesis by (auto simp: logSystemCall_after)
  next
    case Other
    then show ?thesis by simp
  qed
qed

text \<open>
  C10. \<open>handleFileWrite\<close> and \<open>handleFileDelete\<close> add to the \<open>file_access\<close> table
  only rows with \<open>wasBlocked\<close> false and an empty reason, whatever the two flags are;
  with a usable handle, the database mutex free and a path they return and have added
  exactly one such row, of type WRITE or DELETE. The same holds for every event that
  the dispatcher of ProcessMonitoring.cpp does not route to \<open>handleFileOpen\<close>,
  whether its handler returns or waits.
\<close>

theorem C10_only_open_marks_blocked:
  "(\<exists>new. file_rows (controller_after (handleFileWrite now c m)) = file_rows c @ new \<and>
          (\<forall>r \<in> set new. \<not> wasBlocked r \<and> reason r = [])) \<and>
   (\<exists>new. file_rows (controller_after (handleFileDelete now c m)) = file_rows c @ new \<and>
          (\<forall>r \<in> set new. \<not> wasBlocked r \<and> reason r = [])) \<and>
   (database c = Some db \<and> \<not> databaseMutex c \<and> write_target_path m = Some path \<longrightarrow>
      (\<exists>c' r. handleFileWrite now c m = Returns c' \<and>
           file_rows c' = file_access db @ [r] \<and> filePath r = path \<and>
           accessType r = ''WRITE'' \<and> \<not> wasBlocked r \<and> reason r = [])) \<and>
   (database c = Some db \<and> \<not> databaseMutex c \<and> unlink_target_path m = Some path \<longrightarrow>
      (\<exists>c' r. handleFileDelete now c m = Returns c' \<and>
           file_rows c' = file_access db @ [r] \<and> filePath r = path \<and>
           accessType r = ''DELETE'' \<and> \<not> wasBlocked r \<and> reason r = [])) \<and>
   (event_type m \<noteq> ES_EVENT_TYPE_AUTH_OPEN \<and> event_type m \<noteq> ES_EVENT_TYPE_NOTIFY_OPEN \<longrightarrow>
      (\<exists>new. file_rows (controller_after (route_PM env now c m)) = file_rows c @ new \<and>
          (\<forall>r \<in> set new. \<not> wasBlocked r \<and> reason r = [])))"
proof -
  have w: "\<exists>c' r. handleFileWrite now c m = Returns c' \<and>
           file_rows c' = file_access db @ [r] \<and> filePath r = path \<and>
           accessType r = ''WRITE'' \<and> \<not> wasBlocked r \<and> reason r = []"
    if "database c = Some db" "\<not> databaseMutex c" "write_target_path m = Some path"
    using that by (simp add: handleFileWrite_def logFileAccess_free file_rows_def)
  have d: "\<exists>c' r. handleFileDelete now c m = Returns c' \<and>
           file_rows c' = file_access db @ [r] \<and> filePath r = path \<and>
           accessType r = ''DELETE'' \<and> \<not> wasBlocked r \<and> reason r = []"
    if "database c = Some db" "\<not> databaseMutex c" "unlink_target_path m = Some path"
    using that by (simp add: handleFileDelete_def logFileAccess_free file_rows_def)
  show ?thesis
    using w d handleFileWrite_unblocked [of now c m] handleFileDelete_unblocked [of now c m]
      route_PM_unblocked [of m env now c]
    by blast
qed

theorem C10_only_open_marks_blocked_witness:
  "database (fresh_controller\<lparr>microphoneEnabled := False\<rparr>) = Some empty_database \<and>
   \<not> databaseMutex (fresh_controller\<lparr>microphoneEnabled := False\<rparr>) \<and>
   write_target_path (empty_message\<lparr>event_type := ES_EVENT_TYPE_NOTIFY_WRITE, process_pid := 500,
       write_target_path := Some ''/dev/audio1''\<rparr>) = Some ''/dev/audio1'' \<and>
   file_rows (controller_after (handleFileWrite 7 (fresh_controller\<lparr>microphoneEnabled := False\<rparr>)
     (empty_message\<lparr>event_type := ES_EVENT_TYPE_NOTIFY_WRITE, process_pid := 500,
       write_target_path := Some ''/dev/audio1''\<rparr>)))
     = [\<lparr> fa_pid = 500, filePath = ''/dev/audio1'', accessType = ''WRITE'', fa_timestamp = 7,
          wasBlocked = False, reason = [] \<rparr>]"
proof -
  let ?c = "fresh_controller\<lparr>microphoneEnabled := False\<rparr>"
  let ?m = "empty_message\<lparr>event_type := ES_EVENT_TYPE_NOTIFY_WRITE, process_pid := 500,
       write_target_path := Some ''/dev/audio1''\<rparr>"
  have h: "database ?c = Some empty_database"
    and f: "\<not> databaseMutex ?c"
    by (simp_all add: fresh_controller_def AudioVideoController_ctor_def)
  have p: "write_target_path ?m = Some ''/dev/audio1''"
    by simp
  have e: "file_rows (controller_after (handleFileWrite 7 ?c ?m))
     = [\<lparr> fa_pid = 500, filePath = ''/dev/audio1'', accessType = ''WRITE'', fa_timestamp = 7,
          wasBlocked = False, reason = [] \<rparr>]"
    using h f file_rows_def [of ?c]
    by (simp add: handleFileWrite_def logFileAccess_after empty_database_def empty_message_def)
  show ?thesis
    using C10_only_open_marks_blocked [of 7 ?c ?m empty_database "''/dev/audio1''"] h f p e
    by simp
qed

end
